theory Spec2Isabelle
  imports Main "HOL-Library.Sublist" "HOL-Library.Word"
begin

section \<open>Values, errors and promises\<close>

text \<open>
  A property of a JavaScript object is absent (\<open>Undefined\<close>), \<open>null\<close>, or holds a value.
\<close>

datatype 'a js = Undefined | Null | Val 'a

text \<open>
  A native error is an \<open>Error\<close> that is none of the client error classes: a plain
  \<open>Error\<close>, a \<open>TypeError\<close>, a \<open>DOMException\<close>, or a driver error (the AWS SDK's, mysql2's
  with \<open>errno\<close>, \<open>code\<close> and \<open>sqlState\<close>).
\<close>

record native_error =
  name :: string
  message :: string
  isTypeError :: bool
  errno :: "nat option"
  code :: "string option"
  sqlState :: "string option"

text \<open>
  Everything a \<open>catch\<close> clause can receive. The constructors are the error classes of
  \<open>probitas-client/types.ts\<close> (ClientError and its subclasses), of the HTTP package's
  \<open>errors.ts\<close>, of the MySQL package's \<open>errors.ts\<close> and the SQS error classes as the SQS
  client constructs them; each carries the constructor's arguments, a \<open>cause\<close> last.
  \<open>HttpError\<close> carries the class name, the message, the status and the status text;
  the MySQL classes carry message, cause, errno and sqlState (ConstraintError the
  constraint name second).
\<close>

datatype thrown =
    NonError string
  | NativeError native_error
  | ConnectionError string "thrown option"
  | TimeoutError string nat "thrown option"
  | AbortError string "thrown option"
  | HttpError string string nat string
  | HttpNetworkError string "thrown option"
  | SqsQueueNotFoundError string string "thrown option"
  | SqsMessageNotFoundError string "thrown option"
  | SqsCommandError string string "thrown option"
  | SqsMessageTooLargeError string nat nat
  | SqsConnectionError string "thrown option"
  | MySqlError string "thrown option" "nat option" "string option"
  | AccessDeniedError string "thrown option" "nat option" "string option"
  | ConnectionRefusedError string "thrown option" "nat option" "string option"
  | QuerySyntaxError string "thrown option" "nat option" "string option"
  | ConstraintError string string "thrown option" "nat option" "string option"
  | DeadlockError string "thrown option" "nat option" "string option"

text \<open>\<open>error instanceof Error\<close>: everything but a thrown non-error value.\<close>

fun instanceofError :: "thrown \<Rightarrow> bool" where
  "instanceofError (NonError s) = False"
| "instanceofError e = True"

fun instanceofTimeoutError :: "thrown \<Rightarrow> bool" where
  "instanceofTimeoutError (TimeoutError m ms c) = True"
| "instanceofTimeoutError e = False"

fun instanceofAbortError :: "thrown \<Rightarrow> bool" where
  "instanceofAbortError (AbortError m c) = True"
| "instanceofAbortError e = False"

fun instanceofHttpNetworkError :: "thrown \<Rightarrow> bool" where
  "instanceofHttpNetworkError (HttpNetworkError m c) = True"
| "instanceofHttpNetworkError e = False"

text \<open>The property \<open>timeoutMs\<close>: only the class TimeoutError declares it.\<close>

fun timeoutMs :: "thrown \<Rightarrow> nat option" where
  "timeoutMs (TimeoutError m ms c) = Some ms"
| "timeoutMs e = None"

text \<open>\<open>error.message\<close> and \<open>error.name\<close> of an Error, and \<open>String(error)\<close> otherwise.\<close>

fun messageOf :: "thrown \<Rightarrow> string" where
  "messageOf (NonError s) = s"
| "messageOf (NativeError n) = message n"
| "messageOf (ConnectionError m c) = m"
| "messageOf (TimeoutError m ms c) = m"
| "messageOf (AbortError m c) = m"
| "messageOf (HttpError cls m st stt) = m"
| "messageOf (HttpNetworkError m c) = m"
| "messageOf (SqsQueueNotFoundError m q c) = m"
| "messageOf (SqsMessageNotFoundError m c) = m"
| "messageOf (SqsCommandError m op c) = m"
| "messageOf (SqsMessageTooLargeError m sz mx) = m"
| "messageOf (SqsConnectionError m c) = m"
| "messageOf (MySqlError m c en st) = m"
| "messageOf (AccessDeniedError m c en st) = m"
| "messageOf (ConnectionRefusedError m c en st) = m"
| "messageOf (QuerySyntaxError m c en st) = m"
| "messageOf (ConstraintError m k c en st) = m"
| "messageOf (DeadlockError m c en st) = m"

fun nameOf :: "thrown \<Rightarrow> string" where
  "nameOf (NonError s) = []"
| "nameOf (NativeError n) = name n"
| "nameOf (ConnectionError m c) = ''ConnectionError''"
| "nameOf (TimeoutError m ms c) = ''TimeoutError''"
| "nameOf (AbortError m c) = ''AbortError''"
| "nameOf (HttpError cls m st stt) = cls"
| "nameOf (HttpNetworkError m c) = ''HttpNetworkError''"
| "nameOf (SqsQueueNotFoundError m q c) = ''SqsQueueNotFoundError''"
| "nameOf (SqsMessageNotFoundError m c) = ''SqsMessageNotFoundError''"
| "nameOf (SqsCommandError m op c) = ''SqsCommandError''"
| "nameOf (SqsMessageTooLargeError m sz mx) = ''SqsMessageTooLargeError''"
| "nameOf (SqsConnectionError m c) = ''SqsConnectionError''"
| "nameOf (MySqlError m c en st) = ''MySqlError''"
| "nameOf (AccessDeniedError m c en st) = ''AccessDeniedError''"
| "nameOf (ConnectionRefusedError m c en st) = ''ConnectionRefusedError''"
| "nameOf (QuerySyntaxError m c en st) = ''QuerySyntaxError''"
| "nameOf (ConstraintError m k c en st) = ''ConstraintError''"
| "nameOf (DeadlockError m c en st) = ''DeadlockError''"

text \<open>\<open>message.includes(part)\<close>.\<close>

definition includes_part :: "string \<Rightarrow> string \<Rightarrow> bool" where
  "includes_part msg part = sublist part msg"

text \<open>
  A promise is described by its settlement: at a time (milliseconds after the attempt
  started) it rejects (\<open>Inl\<close>) or fulfils (\<open>Inr\<close>), or it never settles.
  The outcome of an awaited client call is a returned value, a thrown error, or a
  caller that waits forever.
\<close>

datatype 'a promise = Settles nat "thrown + 'a" | NeverSettles

datatype 'a outcome = Returned 'a | Thrown thrown | Pending

section \<open>The cancellation gate of the SQS client (withOptions)\<close>

record abort_signal =
  aborted :: bool
  abortsAt :: "nat option"

record common_options =
  timeout :: "nat option"
  signal :: "abort_signal option"

text \<open>
  \<open>Promise.race\<close>: the promise that settles first decides; of two that settle at the
  same time the one earlier in the array does.
\<close>

fun first_settled :: "'a promise \<Rightarrow> 'a promise \<Rightarrow> 'a promise" where
  "first_settled NeverSettles q = q"
| "first_settled (Settles t x) NeverSettles = Settles t x"
| "first_settled (Settles t x) (Settles u y) = (if u < t then Settles u y else Settles t x)"

definition race :: "'a promise list \<Rightarrow> 'a promise" where
  "race racePromises = foldl first_settled NeverSettles racePromises"

definition timeoutPromise :: "nat \<Rightarrow> string \<Rightarrow> 'a promise" where
  "timeoutPromise ms operation =
     Settles ms (Inl (TimeoutError (''Operation timed out: '' @ operation) ms None))"

definition abortPromise :: "abort_signal \<Rightarrow> string \<Rightarrow> 'a promise" where
  "abortPromise sig operation =
     (case abortsAt sig of
        None \<Rightarrow> NeverSettles
      | Some t \<Rightarrow> Settles t (Inl (AbortError (''Operation aborted: '' @ operation) None)))"

text \<open>\<open>!options?.timeout\<close>: the timeout is absent or zero.\<close>

definition noTimeout :: "nat option \<Rightarrow> bool" where
  "noTimeout t = (t = None \<or> t = Some 0)"

definition withOptions ::
  "'a promise \<Rightarrow> 'b common_options_scheme option \<Rightarrow> string \<Rightarrow> 'a promise" where
  "withOptions promise options operation =
     (case options of
        None \<Rightarrow> promise
      | Some opts \<Rightarrow>
          if noTimeout (timeout opts) \<and> signal opts = None then promise
          else
            let withTimer =
                  (case timeout opts of
                     None \<Rightarrow> [promise]
                   | Some ms \<Rightarrow> [promise, timeoutPromise ms operation])
            in (case signal opts of
                  None \<Rightarrow> race withTimer
                | Some sig \<Rightarrow>
                    if aborted sig
                    then Settles 0 (Inl (AbortError (''Operation aborted: '' @ operation) None))
                    else race (withTimer @ [abortPromise sig operation])))"

section \<open>The SQS error taxonomy (convertSqsError)\<close>

text \<open>
  convertSqsError never returns: the value of the model is the error it throws.
  \<open>context?.queueUrl\<close> is the optional third argument.
\<close>

definition convertSqsError :: "thrown \<Rightarrow> string \<Rightarrow> string option \<Rightarrow> thrown" where
  "convertSqsError error operation queueUrl =
     (if instanceofTimeoutError error \<or> instanceofAbortError error then error
      else if instanceofError error then
        (let msg = messageOf error; errorName = nameOf error in
         if errorName = ''QueueDoesNotExist''
            \<or> errorName = ''AWS.SimpleQueueService.NonExistentQueue''
            \<or> includes_part msg ''does not exist''
            \<or> includes_part msg ''NonExistentQueue''
         then SqsQueueNotFoundError msg
                (case queueUrl of None \<Rightarrow> ''unknown'' | Some u \<Rightarrow> u) (Some error)
         else if errorName = ''ReceiptHandleIsInvalid''
            \<or> includes_part msg ''ReceiptHandleIsInvalid''
            \<or> includes_part msg ''receipt handle''
         then SqsMessageNotFoundError msg (Some error)
         else SqsCommandError msg operation (Some error))
      else SqsCommandError (messageOf error) operation None)"

section \<open>The SQS client\<close>

subsection \<open>Message size\<close>

definition MAX_MESSAGE_SIZE :: nat where
  "MAX_MESSAGE_SIZE = 256 * 1024"

text \<open>
  A message body is a JavaScript string: a sequence of UTF-16 code units.
  \<open>new TextEncoder().encode(body).length\<close> is the platform's UTF-8 encoder: a surrogate
  pair is one code point of four bytes, a lone surrogate is replaced by U+FFFD (three
  bytes), any other unit takes one, two or three bytes.
\<close>

definition isHighSurrogate :: "16 word \<Rightarrow> bool" where
  "isHighSurrogate u = (0xD800 \<le> u \<and> u \<le> 0xDBFF)"

definition isLowSurrogate :: "16 word \<Rightarrow> bool" where
  "isLowSurrogate u = (0xDC00 \<le> u \<and> u \<le> 0xDFFF)"

definition unitBytes :: "16 word \<Rightarrow> nat" where
  "unitBytes u = (if u < 0x80 then 1 else if u < 0x800 then 2 else 3)"

fun utf8Length :: "16 word list \<Rightarrow> nat" where
  "utf8Length [] = 0"
| "utf8Length [u] = unitBytes u"
| "utf8Length (u # v # rest) =
     (if isHighSurrogate u \<and> isLowSurrogate v then 4 + utf8Length rest
      else unitBytes u + utf8Length (v # rest))"

text \<open>The decimal digits of a number, as a template literal prints it.\<close>

fun string_of_nat :: "nat \<Rightarrow> string" where
  "string_of_nat n =
     (if n < 10 then [''0123456789'' ! n]
      else string_of_nat (n div 10) @ [''0123456789'' ! (n mod 10)])"

declare string_of_nat.simps [simp del]

text \<open>validateMessageSize returns nothing or throws: the model gives the error thrown.\<close>

definition validateMessageSize :: "16 word list \<Rightarrow> thrown option" where
  "validateMessageSize body =
     (let size = utf8Length body in
      if size > MAX_MESSAGE_SIZE
      then Some (SqsMessageTooLargeError
                   (''Message size '' @ string_of_nat size
                      @ '' exceeds maximum allowed size '' @ string_of_nat MAX_MESSAGE_SIZE)
                   size MAX_MESSAGE_SIZE)
      else None)"

subsection \<open>Commands, responses and results\<close>

text \<open>
  The commands handed to the AWS SDK client, with the fields the client fills in
  (message attributes are converted field by field and left out here):
  SendMessageCommand: QueueUrl, MessageBody, DelaySeconds, MessageGroupId,
  MessageDeduplicationId; SendMessageBatchCommand: QueueUrl and the entries
  (Id, MessageBody, DelaySeconds); DeleteMessageBatchCommand: QueueUrl and the
  entries (Id, ReceiptHandle).
\<close>

datatype sdk_command =
    SendMessageCommand string "16 word list" "nat option" "string option" "string option"
  | SendMessageBatchCommand string "(string \<times> 16 word list \<times> nat option) list"
  | DeleteMessageBatchCommand string "(string \<times> string) list"

record send_response =
  MessageId :: "string js"
  MD5OfMessageBody :: "string js"
  SequenceNumber :: "string js"

text \<open>The SDK's batch entries: (Id, MessageId) and (Id, Code, Message).\<close>

datatype sdk_success_entry = SdkSuccessEntry string string
datatype sdk_failed_entry = SdkFailedEntry string string "string option"

record batch_response =
  Successful :: "sdk_success_entry list option"
  Failed :: "sdk_failed_entry list option"

text \<open>The client's batch entries: (messageId, id) and (id, code, message).\<close>

datatype sqs_batch_success_entry = SqsBatchSuccessEntry string string
datatype sqs_batch_failed_entry = SqsBatchFailedEntry string string string

text \<open>
  The fields every result object can have (ClientResult); a field that an object
  literal does not write is \<open>Undefined\<close>.
\<close>

record client_result =
  kind :: "string js"
  processed :: "bool js"
  ok :: bool
  error :: "thrown js"
  duration :: nat

record sqs_send_result = client_result +
  messageId :: "string js"
  md5OfBody :: "string js"
  sequenceNumber :: "string js"

record 's sqs_batch_result = client_result +
  successful :: "'s list js"
  failed :: "sqs_batch_failed_entry list js"

record sqs_send_options = common_options +
  delaySeconds :: "nat option"
  messageGroupId :: "string option"
  messageDeduplicationId :: "string option"

text \<open>A batch message: (id, body, delaySeconds).\<close>

type_synonym sqs_batch_message = "string \<times> 16 word list \<times> nat option"

subsection \<open>The client object\<close>

record client_base =
  closed :: bool

text \<open>
  \<open>destroyCalls\<close> counts the calls of the SDK client's \<open>destroy()\<close>, \<open>dispatched\<close> lists
  the commands passed to its \<open>send()\<close>.
\<close>

record sqs_client = client_base +
  queueUrl :: string
  destroyCalls :: nat
  dispatched :: "sdk_command list"

definition ensureOpen :: "'a client_base_scheme \<Rightarrow> thrown option" where
  "ensureOpen c = (if closed c then Some (SqsCommandError ''Client is closed'' [] None) else None)"

definition opt :: "'o option \<Rightarrow> ('o \<Rightarrow> 'v option) \<Rightarrow> 'v option" where
  "opt options field = (case options of None \<Rightarrow> None | Some x \<Rightarrow> field x)"

definition SqsClientImpl_send ::
  "sqs_client \<Rightarrow> 16 word list \<Rightarrow> sqs_send_options option \<Rightarrow> send_response promise
     \<Rightarrow> sqs_send_result outcome \<times> sqs_client" where
  "SqsClientImpl_send c body options response =
     (case ensureOpen c of
        Some e \<Rightarrow> (Thrown e, c)
      | None \<Rightarrow>
        (case validateMessageSize body of
           Some e \<Rightarrow> (Thrown e, c)
         | None \<Rightarrow>
           (let command = SendMessageCommand (queueUrl c) body (opt options delaySeconds)
                            (opt options messageGroupId) (opt options messageDeduplicationId);
                c' = c\<lparr>dispatched := dispatched c @ [command]\<rparr>
            in (case withOptions response options ''send'' of
                  Settles t (Inr r) \<Rightarrow>
                    (Returned \<lparr>kind = Undefined, processed = Undefined, ok = True,
                               error = Undefined, duration = t,
                               messageId = MessageId r, md5OfBody = MD5OfMessageBody r,
                               sequenceNumber = SequenceNumber r\<rparr>, c')
                | Settles t (Inl e) \<Rightarrow>
                    (Thrown (convertSqsError e ''send'' (Some (queueUrl c))), c')
                | NeverSettles \<Rightarrow> (Pending, c')))))"

text \<open>The loop \<open>for (const msg of messages) validateMessageSize(msg.body)\<close>.\<close>

fun validateMessages :: "sqs_batch_message list \<Rightarrow> thrown option" where
  "validateMessages [] = None"
| "validateMessages ((i, body, d) # rest) =
     (case validateMessageSize body of Some e \<Rightarrow> Some e | None \<Rightarrow> validateMessages rest)"

fun toSuccess :: "sdk_success_entry \<Rightarrow> sqs_batch_success_entry" where
  "toSuccess (SdkSuccessEntry i mid) = SqsBatchSuccessEntry mid i"

fun toFailed :: "sdk_failed_entry \<Rightarrow> sqs_batch_failed_entry" where
  "toFailed (SdkFailedEntry i c m) = SqsBatchFailedEntry i c (case m of None \<Rightarrow> [] | Some t \<Rightarrow> t)"

fun entryId :: "sdk_success_entry \<Rightarrow> string" where
  "entryId (SdkSuccessEntry i mid) = i"

definition orEmpty :: "'a list option \<Rightarrow> 'a list" where
  "orEmpty xs = (case xs of None \<Rightarrow> [] | Some ys \<Rightarrow> ys)"

definition SqsClientImpl_sendBatch ::
  "sqs_client \<Rightarrow> sqs_batch_message list \<Rightarrow> batch_response promise
     \<Rightarrow> sqs_batch_success_entry sqs_batch_result outcome \<times> sqs_client" where
  "SqsClientImpl_sendBatch c messages response =
     (case ensureOpen c of
        Some e \<Rightarrow> (Thrown e, c)
      | None \<Rightarrow>
        (case validateMessages messages of
           Some e \<Rightarrow> (Thrown e, c)
         | None \<Rightarrow>
           (let command = SendMessageBatchCommand (queueUrl c) messages;
                c' = c\<lparr>dispatched := dispatched c @ [command]\<rparr>
            in (case withOptions response (None :: common_options option) ''sendBatch'' of
                  Settles t (Inr r) \<Rightarrow>
                    (let successful = map toSuccess (orEmpty (Successful r));
                         failed = map toFailed (orEmpty (Failed r))
                     in (Returned \<lparr>kind = Undefined, processed = Undefined,
                                    ok = (length failed = 0),
                                    error = Undefined, duration = t,
                                    successful = Val successful, failed = Val failed\<rparr>, c'))
                | Settles t (Inl e) \<Rightarrow>
                    (Thrown (convertSqsError e ''sendBatch'' (Some (queueUrl c))), c')
                | NeverSettles \<Rightarrow> (Pending, c')))))"

definition SqsClientImpl_deleteBatch ::
  "sqs_client \<Rightarrow> string list \<Rightarrow> common_options option \<Rightarrow> batch_response promise
     \<Rightarrow> string sqs_batch_result outcome \<times> sqs_client" where
  "SqsClientImpl_deleteBatch c receiptHandles options response =
     (case ensureOpen c of
        Some e \<Rightarrow> (Thrown e, c)
      | None \<Rightarrow>
        (let command = DeleteMessageBatchCommand (queueUrl c)
                         (map (\<lambda>(index, handle). (string_of_nat index, handle))
                              (enumerate 0 receiptHandles));
             c' = c\<lparr>dispatched := dispatched c @ [command]\<rparr>
         in (case withOptions response options ''deleteBatch'' of
               Settles t (Inr r) \<Rightarrow>
                 (let successful = map entryId (orEmpty (Successful r));
                      failed = map toFailed (orEmpty (Failed r))
                  in (Returned \<lparr>kind = Undefined, processed = Undefined,
                                 ok = (length failed = 0),
                                 error = Undefined, duration = t,
                                 successful = Val successful, failed = Val failed\<rparr>, c'))
             | Settles t (Inl e) \<Rightarrow>
                 (Thrown (convertSqsError e ''deleteBatch'' (Some (queueUrl c))), c')
             | NeverSettles \<Rightarrow> (Pending, c'))))"

text \<open>
  close: \<open>destroyThrows\<close> says whether the SDK client's \<open>destroy()\<close> throws; the
  \<open>catch\<close> clause ignores it.
\<close>

definition SqsClientImpl_close :: "bool \<Rightarrow> sqs_client \<Rightarrow> unit outcome \<times> sqs_client" where
  "SqsClientImpl_close destroyThrows c =
     (if closed c then (Returned (), c)
      else (let c' = c\<lparr>closed := True, destroyCalls := destroyCalls c + 1\<rparr>
            in if destroyThrows then (Returned (), c') else (Returned (), c')))"

section \<open>The MySQL client: close\<close>

text \<open>\<open>poolEndCalls\<close> counts the calls of the pool's \<open>end()\<close>; \<open>poolEnd\<close> is its promise.\<close>

record mysql_client = client_base +
  poolEndCalls :: nat

definition MySqlClientImpl_close ::
  "unit promise \<Rightarrow> mysql_client \<Rightarrow> unit outcome \<times> mysql_client" where
  "MySqlClientImpl_close poolEnd c =
     (if closed c then (Returned (), c)
      else (let c' = c\<lparr>closed := True, poolEndCalls := poolEndCalls c + 1\<rparr>
            in (case poolEnd of
                  Settles t (Inr u) \<Rightarrow> (Returned (), c')
                | Settles t (Inl e) \<Rightarrow> (Thrown e, c')
                | NeverSettles \<Rightarrow> (Pending, c'))))"

text \<open>Closing a client again and again, each call with its own environment.\<close>

fun SqsClientImpl_closes ::
  "bool list \<Rightarrow> sqs_client \<Rightarrow> unit outcome list \<times> sqs_client" where
  "SqsClientImpl_closes [] c = ([], c)"
| "SqsClientImpl_closes (d # ds) c =
     (case SqsClientImpl_close d c of
        (r, c') \<Rightarrow> (case SqsClientImpl_closes ds c' of (rs, c'') \<Rightarrow> (r # rs, c'')))"

fun MySqlClientImpl_closes ::
  "unit promise list \<Rightarrow> mysql_client \<Rightarrow> unit outcome list \<times> mysql_client" where
  "MySqlClientImpl_closes [] c = ([], c)"
| "MySqlClientImpl_closes (d # ds) c =
     (case MySqlClientImpl_close d c of
        (r, c') \<Rightarrow> (case MySqlClientImpl_closes ds c' of (rs, c'') \<Rightarrow> (r # rs, c'')))"

section \<open>Result factories\<close>

subsection \<open>SQS results (result.ts)\<close>

definition createSqsSendResultSuccess ::
  "string \<Rightarrow> string \<Rightarrow> string js \<Rightarrow> nat \<Rightarrow> sqs_send_result" where
  "createSqsSendResultSuccess mid md5 seqNo d =
     \<lparr>kind = Val ''sqs:send'', processed = Val True, ok = True, error = Null, duration = d,
      messageId = Val mid, md5OfBody = Val md5, sequenceNumber = seqNo\<rparr>"

definition createSqsSendResultError :: "thrown \<Rightarrow> nat \<Rightarrow> sqs_send_result" where
  "createSqsSendResultError e d =
     \<lparr>kind = Val ''sqs:send'', processed = Val True, ok = False, error = Val e, duration = d,
      messageId = Null, md5OfBody = Null, sequenceNumber = Null\<rparr>"

definition createSqsSendResultFailure :: "thrown \<Rightarrow> nat \<Rightarrow> sqs_send_result" where
  "createSqsSendResultFailure e d =
     \<lparr>kind = Val ''sqs:send'', processed = Val False, ok = False, error = Val e, duration = d,
      messageId = Null, md5OfBody = Null, sequenceNumber = Null\<rparr>"

definition createSqsSendBatchResultSuccess ::
  "sqs_batch_success_entry list \<Rightarrow> sqs_batch_failed_entry list \<Rightarrow> nat
     \<Rightarrow> sqs_batch_success_entry sqs_batch_result" where
  "createSqsSendBatchResultSuccess succ fl d =
     \<lparr>kind = Val ''sqs:send-batch'', processed = Val True, ok = True, error = Null,
      duration = d, successful = Val succ, failed = Val fl\<rparr>"

definition createSqsSendBatchResultError ::
  "thrown \<Rightarrow> nat \<Rightarrow> sqs_batch_success_entry sqs_batch_result" where
  "createSqsSendBatchResultError e d =
     \<lparr>kind = Val ''sqs:send-batch'', processed = Val True, ok = False, error = Val e,
      duration = d, successful = Val [], failed = Val []\<rparr>"

definition createSqsSendBatchResultFailure ::
  "thrown \<Rightarrow> nat \<Rightarrow> sqs_batch_success_entry sqs_batch_result" where
  "createSqsSendBatchResultFailure e d =
     \<lparr>kind = Val ''sqs:send-batch'', processed = Val False, ok = False, error = Val e,
      duration = d, successful = Null, failed = Null\<rparr>"

definition createSqsDeleteResultSuccess :: "nat \<Rightarrow> client_result" where
  "createSqsDeleteResultSuccess d =
     \<lparr>kind = Val ''sqs:delete'', processed = Val True, ok = True, error = Null, duration = d\<rparr>"

definition createSqsDeleteResultError :: "thrown \<Rightarrow> nat \<Rightarrow> client_result" where
  "createSqsDeleteResultError e d =
     \<lparr>kind = Val ''sqs:delete'', processed = Val True, ok = False, error = Val e,
      duration = d\<rparr>"

definition createSqsDeleteResultFailure :: "thrown \<Rightarrow> nat \<Rightarrow> client_result" where
  "createSqsDeleteResultFailure e d =
     \<lparr>kind = Val ''sqs:delete'', processed = Val False, ok = False, error = Val e,
      duration = d\<rparr>"

definition createSqsDeleteBatchResultSuccess ::
  "string list \<Rightarrow> sqs_batch_failed_entry list \<Rightarrow> nat \<Rightarrow> string sqs_batch_result" where
  "createSqsDeleteBatchResultSuccess succ fl d =
     \<lparr>kind = Val ''sqs:delete-batch'', processed = Val True, ok = True, error = Null,
      duration = d, successful = Val succ, failed = Val fl\<rparr>"

definition createSqsDeleteBatchResultError :: "thrown \<Rightarrow> nat \<Rightarrow> string sqs_batch_result" where
  "createSqsDeleteBatchResultError e d =
     \<lparr>kind = Val ''sqs:delete-batch'', processed = Val True, ok = False, error = Val e,
      duration = d, successful = Val [], failed = Val []\<rparr>"

definition createSqsDeleteBatchResultFailure :: "thrown \<Rightarrow> nat \<Rightarrow> string sqs_batch_result" where
  "createSqsDeleteBatchResultFailure e d =
     \<lparr>kind = Val ''sqs:delete-batch'', processed = Val False, ok = False, error = Val e,
      duration = d, successful = Null, failed = Null\<rparr>"

subsection \<open>Redis GET and SET results\<close>

record 'v redis_result = client_result +
  redisValue :: "'v js"

definition createRedisGetResultSuccess :: "string js \<Rightarrow> nat \<Rightarrow> string redis_result" where
  "createRedisGetResultSuccess v d =
     \<lparr>kind = Val ''redis:get'', processed = Val True, ok = True, error = Null, duration = d,
      redisValue = v\<rparr>"

definition createRedisGetResultError :: "thrown \<Rightarrow> nat \<Rightarrow> string redis_result" where
  "createRedisGetResultError e d =
     \<lparr>kind = Val ''redis:get'', processed = Val True, ok = False, error = Val e, duration = d,
      redisValue = Null\<rparr>"

definition createRedisGetResultFailure :: "thrown \<Rightarrow> nat \<Rightarrow> string redis_result" where
  "createRedisGetResultFailure e d =
     \<lparr>kind = Val ''redis:get'', processed = Val False, ok = False, error = Val e, duration = d,
      redisValue = Null\<rparr>"

definition createRedisSetResultSuccess :: "nat \<Rightarrow> string redis_result" where
  "createRedisSetResultSuccess d =
     \<lparr>kind = Val ''redis:set'', processed = Val True, ok = True, error = Null, duration = d,
      redisValue = Val ''OK''\<rparr>"

definition createRedisSetResultError :: "thrown \<Rightarrow> nat \<Rightarrow> string redis_result" where
  "createRedisSetResultError e d =
     \<lparr>kind = Val ''redis:set'', processed = Val True, ok = False, error = Val e, duration = d,
      redisValue = Null\<rparr>"

definition createRedisSetResultFailure :: "thrown \<Rightarrow> nat \<Rightarrow> string redis_result" where
  "createRedisSetResultFailure e d =
     \<lparr>kind = Val ''redis:set'', processed = Val False, ok = False, error = Val e, duration = d,
      redisValue = Null\<rparr>"

subsection \<open>MongoDB failure results (results.ts)\<close>

definition createMongoFindFailure :: "thrown \<Rightarrow> nat \<Rightarrow> client_result" where
  "createMongoFindFailure e d =
     \<lparr>kind = Val ''mongo:find'', processed = Undefined, ok = False, error = Val e,
      duration = d\<rparr>"

subsection \<open>The three states of a result\<close>

text \<open>
  The transport tier is the connection, timeout and abort errors, as the failure types
  of the packages list them (SqsFailureError: SqsConnectionError, AbortError,
  TimeoutError; HttpFailureError: HttpNetworkError, AbortError, TimeoutError). Any other
  Error is an operation error.
\<close>

fun isTransportFailure :: "thrown \<Rightarrow> bool" where
  "isTransportFailure (ConnectionError m c) = True"
| "isTransportFailure (TimeoutError m ms c) = True"
| "isTransportFailure (AbortError m c) = True"
| "isTransportFailure (HttpNetworkError m c) = True"
| "isTransportFailure (SqsConnectionError m c) = True"
| "isTransportFailure e = False"

definition isOperationError :: "thrown \<Rightarrow> bool" where
  "isOperationError e = (instanceofError e \<and> \<not> isTransportFailure e)"

definition stateSuccess :: "'a client_result_scheme \<Rightarrow> bool" where
  "stateSuccess r = (processed r = Val True \<and> ok r \<and> error r = Null)"

definition stateError :: "'a client_result_scheme \<Rightarrow> bool" where
  "stateError r =
     (processed r = Val True \<and> \<not> ok r
      \<and> (case error r of Val e \<Rightarrow> isOperationError e | Null \<Rightarrow> False | Undefined \<Rightarrow> False))"

definition stateFailure :: "'a client_result_scheme \<Rightarrow> bool" where
  "stateFailure r =
     (processed r = Val False \<and> \<not> ok r
      \<and> (case error r of Val e \<Rightarrow> isTransportFailure e | Null \<Rightarrow> False | Undefined \<Rightarrow> False))"

definition triState :: "'a client_result_scheme \<Rightarrow> bool" where
  "triState r = (length (filter (\<lambda>b. b) [stateSuccess r, stateError r, stateFailure r]) = 1)"

section \<open>The HTTP client\<close>

subsection \<open>Error taxonomy\<close>

definition HttpBadRequestError :: "string \<Rightarrow> thrown" where
  "HttpBadRequestError msg = HttpError ''HttpBadRequestError'' msg 400 ''Bad Request''"

definition HttpUnauthorizedError :: "string \<Rightarrow> thrown" where
  "HttpUnauthorizedError msg = HttpError ''HttpUnauthorizedError'' msg 401 ''Unauthorized''"

definition HttpForbiddenError :: "string \<Rightarrow> thrown" where
  "HttpForbiddenError msg = HttpError ''HttpForbiddenError'' msg 403 ''Forbidden''"

definition HttpNotFoundError :: "string \<Rightarrow> thrown" where
  "HttpNotFoundError msg = HttpError ''HttpNotFoundError'' msg 404 ''Not Found''"

definition HttpConflictError :: "string \<Rightarrow> thrown" where
  "HttpConflictError msg = HttpError ''HttpConflictError'' msg 409 ''Conflict''"

definition HttpTooManyRequestsError :: "string \<Rightarrow> thrown" where
  "HttpTooManyRequestsError msg =
     HttpError ''HttpTooManyRequestsError'' msg 429 ''Too Many Requests''"

definition HttpInternalServerError :: "string \<Rightarrow> thrown" where
  "HttpInternalServerError msg =
     HttpError ''HttpInternalServerError'' msg 500 ''Internal Server Error''"

text \<open>
  formatBodyDetail: nothing for an absent or empty body text; otherwise the text,
  pretty-printed when it is JSON, indented and set after two newlines. That rendering
  uses \<open>JSON.parse\<close> and \<open>Deno.inspect\<close> and is the parameter \<open>render\<close>.
\<close>

definition formatBodyDetail :: "(string \<Rightarrow> string) \<Rightarrow> string option \<Rightarrow> string" where
  "formatBodyDetail render bodyText =
     (case bodyText of None \<Rightarrow> [] | Some t \<Rightarrow> if t = [] then [] else render t)"

definition createHttpError ::
  "(string \<Rightarrow> string) \<Rightarrow> nat \<Rightarrow> string \<Rightarrow> string option \<Rightarrow> thrown" where
  "createHttpError render st stText bodyText =
     (let detail = formatBodyDetail render bodyText;
          msg = string_of_nat st @ '': '' @ stText @ detail
      in if st = 400 then HttpBadRequestError msg
         else if st = 401 then HttpUnauthorizedError msg
         else if st = 403 then HttpForbiddenError msg
         else if st = 404 then HttpNotFoundError msg
         else if st = 409 then HttpConflictError msg
         else if st = 429 then HttpTooManyRequestsError msg
         else if st = 500 then HttpInternalServerError msg
         else HttpError ''HttpError'' msg st stText)"

fun instanceofTypeError :: "thrown \<Rightarrow> bool" where
  "instanceofTypeError (NativeError n) = isTypeError n"
| "instanceofTypeError e = False"

definition convertFetchError :: "thrown \<Rightarrow> thrown" where
  "convertFetchError err =
     (if instanceofAbortError err \<or> instanceofTimeoutError err then err
      else if instanceofHttpNetworkError err then err
      else if instanceofError err then
        (if nameOf err = ''AbortError'' then AbortError ''Request was aborted'' (Some err)
         else if nameOf err = ''TimeoutError'' then TimeoutError ''Request timed out'' 0 (Some err)
         else if instanceofTypeError err
           then HttpNetworkError (''Connection failed: '' @ messageOf err) (Some err)
         else if nameOf err = ''NetworkError''
           then HttpNetworkError (''Network error: '' @ messageOf err) (Some err)
         else HttpNetworkError (messageOf err) (Some err))
      else HttpNetworkError (messageOf err) None)"

subsection \<open>Responses (response.ts)\<close>

text \<open>
  What \<open>fetch\<close> resolves with: status line, headers, and the body: \<open>None\<close> when
  \<open>raw.body\<close> is null, otherwise what \<open>raw.arrayBuffer()\<close> settles with.
\<close>

record raw_response =
  rawStatus :: nat
  rawStatusText :: string
  rawOk :: bool
  rawUrl :: string
  rawHeaders :: "(string \<times> string) list"
  rawBody :: "(thrown + 8 word list) option"

text \<open>
  The three response classes have the same fields; the private fields \<open>#textCache\<close>,
  \<open>#jsonCache\<close> and \<open>#jsonParsed\<close> are the last three. The failure class has no caches
  and a null body, and its \<open>text()\<close> and \<open>json()\<close> return null, which is what the
  methods below give for a null body.
\<close>

record 'j http_response = client_result +
  url :: string
  status :: "nat js"
  statusText :: "string js"
  headers :: "(string \<times> string) list js"
  body :: "8 word list js"
  raw :: "raw_response js"
  textCache :: "string js"
  jsonCache :: "'j js"
  jsonParsed :: bool

definition createHttpResponseSuccess ::
  "raw_response \<Rightarrow> 8 word list js \<Rightarrow> nat \<Rightarrow> 'j http_response" where
  "createHttpResponseSuccess r b d =
     \<lparr>kind = Val ''http'', processed = Val True, ok = True, error = Null, duration = d,
      url = rawUrl r, status = Val (rawStatus r), statusText = Val (rawStatusText r),
      headers = Val (rawHeaders r), body = b, raw = Val r,
      textCache = Undefined, jsonCache = Undefined, jsonParsed = False\<rparr>"

definition createHttpResponseError ::
  "raw_response \<Rightarrow> 8 word list js \<Rightarrow> nat \<Rightarrow> thrown \<Rightarrow> 'j http_response" where
  "createHttpResponseError r b d e =
     \<lparr>kind = Val ''http'', processed = Val True, ok = False, error = Val e, duration = d,
      url = rawUrl r, status = Val (rawStatus r), statusText = Val (rawStatusText r),
      headers = Val (rawHeaders r), body = b, raw = Val r,
      textCache = Undefined, jsonCache = Undefined, jsonParsed = False\<rparr>"

definition createHttpResponseFailure :: "string \<Rightarrow> nat \<Rightarrow> thrown \<Rightarrow> 'j http_response" where
  "createHttpResponseFailure u d e =
     \<lparr>kind = Val ''http'', processed = Val False, ok = False, error = Val e, duration = d,
      url = u, status = Null, statusText = Null, headers = Null, body = Null, raw = Null,
      textCache = Undefined, jsonCache = Undefined, jsonParsed = False\<rparr>"

text \<open>
  \<open>text()\<close> and \<open>json()\<close> on a response. \<open>decode\<close> is \<open>new TextDecoder().decode\<close> and
  \<open>parse\<close> is \<open>JSON.parse\<close>, which throws on text that is not JSON; the counters count
  their calls, as counting stubs would.
\<close>

record counters =
  decodeCalls :: nat
  parseCalls :: nat

definition HttpResponse_text ::
  "(8 word list \<Rightarrow> string) \<Rightarrow> 'j http_response \<times> counters
     \<Rightarrow> string js \<times> 'j http_response \<times> counters" where
  "HttpResponse_text decode s =
     (case s of (r, k) \<Rightarrow>
        (case body r of
           Val bytes \<Rightarrow>
             (case textCache r of
                Undefined \<Rightarrow>
                  (Val (decode bytes),
                   r\<lparr>textCache := Val (decode bytes)\<rparr>, k\<lparr>decodeCalls := decodeCalls k + 1\<rparr>)
              | Null \<Rightarrow> (Null, r, k)
              | Val t \<Rightarrow> (Val t, r, k))
         | Null \<Rightarrow> (Null, r, k)
         | Undefined \<Rightarrow> (Null, r, k)))"

definition HttpResponse_json ::
  "(8 word list \<Rightarrow> string) \<Rightarrow> (string \<Rightarrow> thrown + 'j) \<Rightarrow> 'j http_response \<times> counters
     \<Rightarrow> 'j js outcome \<times> 'j http_response \<times> counters" where
  "HttpResponse_json decode parse s =
     (case s of (r, k) \<Rightarrow>
        (case body r of
           Val bytes \<Rightarrow>
             if \<not> jsonParsed r then
               (case HttpResponse_text decode (r, k) of
                  (Val textValue, r1, k1) \<Rightarrow>
                    (case parse textValue of
                       Inl e \<Rightarrow> (Thrown e, r1, k1\<lparr>parseCalls := parseCalls k1 + 1\<rparr>)
                     | Inr v \<Rightarrow>
                         (Returned (Val v), r1\<lparr>jsonCache := Val v, jsonParsed := True\<rparr>,
                          k1\<lparr>parseCalls := parseCalls k1 + 1\<rparr>))
                | (other, r1, k1) \<Rightarrow>
                    (Returned Null, r1\<lparr>jsonCache := Null, jsonParsed := True\<rparr>, k1))
             else (Returned (jsonCache r), r, k)
         | Null \<Rightarrow> (Returned Null, r, k)
         | Undefined \<Rightarrow> (Returned Null, r, k)))"

datatype 'j read = TextRead "string js" | JsonRead "'j js outcome"

text \<open>A sequence of reads (\<open>True\<close>: \<open>json()\<close>, \<open>False\<close>: \<open>text()\<close>) and what each returned.\<close>

fun reads ::
  "(8 word list \<Rightarrow> string) \<Rightarrow> (string \<Rightarrow> thrown + 'j) \<Rightarrow> bool list
     \<Rightarrow> 'j http_response \<times> counters \<Rightarrow> 'j read list \<times> 'j http_response \<times> counters" where
  "reads decode parse [] s = ([], s)"
| "reads decode parse (j # js) s =
     (if j then
        (case HttpResponse_json decode parse s of
           (x, s') \<Rightarrow> (case reads decode parse js s' of (xs, s'') \<Rightarrow> (JsonRead x # xs, s'')))
      else
        (case HttpResponse_text decode s of
           (x, s') \<Rightarrow> (case reads decode parse js s' of (xs, s'') \<Rightarrow> (TextRead x # xs, s''))))"

subsection \<open>What repeated reads should give\<close>

text \<open>
  \<open>expectedJson\<close> is what \<open>json()\<close> gives for a text: the parsed value, or the parser's
  error thrown. \<open>cachesOnly r0 r\<close> says that \<open>r\<close> differs from \<open>r0\<close> in the three cache
  fields at most. \<open>cacheInv\<close> is the invariant of a response that was created with the
  body \<open>bytes\<close> as \<open>r0\<close>, with the counters at \<open>k0\<close>.
\<close>

definition expectedJson :: "(string \<Rightarrow> thrown + 'j) \<Rightarrow> string \<Rightarrow> 'j js outcome" where
  "expectedJson parse t = (case parse t of Inl e \<Rightarrow> Thrown e | Inr v \<Rightarrow> Returned (Val v))"

definition cachesOnly :: "'j http_response \<Rightarrow> 'j http_response \<Rightarrow> bool" where
  "cachesOnly r0 r =
     (r\<lparr>textCache := textCache r0, jsonCache := jsonCache r0, jsonParsed := jsonParsed r0\<rparr> = r0)"

definition cacheInv ::
  "(8 word list \<Rightarrow> string) \<Rightarrow> (string \<Rightarrow> thrown + 'j) \<Rightarrow> 8 word list
     \<Rightarrow> 'j http_response \<Rightarrow> counters \<Rightarrow> 'j http_response \<times> counters \<Rightarrow> bool" where
  "cacheInv decode parse bytes r0 k0 s =
     (case s of (r, k) \<Rightarrow>
        cachesOnly r0 r \<and> body r = Val bytes
        \<and> (textCache r = Undefined \<and> decodeCalls k = decodeCalls k0
             \<or> textCache r = Val (decode bytes) \<and> decodeCalls k = decodeCalls k0 + 1)
        \<and> (if jsonParsed r
             then textCache r = Val (decode bytes)
                  \<and> (\<exists>v. parse (decode bytes) = Inr v \<and> jsonCache r = Val v)
                  \<and> parseCalls k = parseCalls k0 + 1
             else parseCalls k = parseCalls k0 \<or> (\<exists>e. parse (decode bytes) = Inl e)))"

subsection \<open>The request\<close>

text \<open>
  HttpOptions and HttpClientConfig are declared in the HTTP package's \<open>types.ts\<close>; the
  request reads \<open>throwOnError\<close> from both, and the options extend the common options
  shared by all clients. Building the URL and the headers, logging and the cookie jar
  take no part in what the request returns or throws and are left out; \<open>u\<close> is the
  built URL, \<open>fetched\<close> the promise of the fetch call, whose settlement time is the
  measured duration.
\<close>

record http_options = common_options +
  throwOnError :: "bool option"

record http_config =
  configThrowOnError :: "bool option"

definition shouldThrow :: "http_config \<Rightarrow> http_options option \<Rightarrow> bool" where
  "shouldThrow cfg options =
     (case opt options throwOnError of
        Some b \<Rightarrow> b
      | None \<Rightarrow> (case configThrowOnError cfg of Some b \<Rightarrow> b | None \<Rightarrow> False))"

definition HttpClientImpl_request ::
  "(string \<Rightarrow> string) \<Rightarrow> (8 word list \<Rightarrow> string) \<Rightarrow> http_config \<Rightarrow> string
     \<Rightarrow> http_options option \<Rightarrow> raw_response promise \<Rightarrow> 'j http_response outcome" where
  "HttpClientImpl_request render decode cfg u options fetched =
     (case fetched of
        NeverSettles \<Rightarrow> Pending
      | Settles d (Inl fetchError) \<Rightarrow>
          (let err = convertFetchError fetchError
           in if shouldThrow cfg options then Thrown err
              else Returned (createHttpResponseFailure u d err))
      | Settles d (Inr rawResponse) \<Rightarrow>
          (case rawBody rawResponse of
             Some (Inl readError) \<Rightarrow> Thrown readError
           | Some (Inr bytes) \<Rightarrow>
               (let responseBody = (if length bytes > 0 then Val bytes else Null)
                in if rawOk rawResponse
                   then Returned (createHttpResponseSuccess rawResponse responseBody d)
                   else
                     (let bodyText = (case responseBody of
                                        Val bs \<Rightarrow> Some (decode bs) | Null \<Rightarrow> None
                                      | Undefined \<Rightarrow> None);
                          httpError = createHttpError render (rawStatus rawResponse)
                                        (rawStatusText rawResponse) bodyText
                      in if shouldThrow cfg options then Thrown httpError
                         else Returned
                                (createHttpResponseError rawResponse responseBody d httpError)))
           | None \<Rightarrow>
               (if rawOk rawResponse
                then Returned (createHttpResponseSuccess rawResponse Null d)
                else
                  (let httpError = createHttpError render (rawStatus rawResponse)
                                     (rawStatusText rawResponse) None
                   in if shouldThrow cfg options then Thrown httpError
                      else Returned (createHttpResponseError rawResponse Null d httpError)))))"

section \<open>The MySQL error taxonomy (convertMySqlError)\<close>

text \<open>The properties \<open>errno\<close>, \<open>code\<close> and \<open>sqlState\<close> of a caught value.\<close>

fun errnoOf :: "thrown \<Rightarrow> nat option" where
  "errnoOf (NativeError n) = errno n"
| "errnoOf (MySqlError m c en st) = en"
| "errnoOf (AccessDeniedError m c en st) = en"
| "errnoOf (ConnectionRefusedError m c en st) = en"
| "errnoOf (QuerySyntaxError m c en st) = None"
| "errnoOf (ConstraintError m k c en st) = None"
| "errnoOf (DeadlockError m c en st) = None"
| "errnoOf e = None"

fun codeOf :: "thrown \<Rightarrow> string option" where
  "codeOf (NativeError n) = code n"
| "codeOf e = None"

fun sqlStateOf :: "thrown \<Rightarrow> string option" where
  "sqlStateOf (NativeError n) = sqlState n"
| "sqlStateOf (MySqlError m c en st) = st"
| "sqlStateOf (AccessDeniedError m c en st) = st"
| "sqlStateOf (ConnectionRefusedError m c en st) = st"
| "sqlStateOf (QuerySyntaxError m c en st) = st"
| "sqlStateOf (ConstraintError m k c en st) = st"
| "sqlStateOf (DeadlockError m c en st) = st"
| "sqlStateOf e = None"

definition ER_ACCESS_DENIED_ERROR :: nat where "ER_ACCESS_DENIED_ERROR = 1045"
definition ER_DUP_ENTRY :: nat where "ER_DUP_ENTRY = 1062"
definition ER_NO_REFERENCED_ROW_2 :: nat where "ER_NO_REFERENCED_ROW_2 = 1452"
definition ER_ROW_IS_REFERENCED_2 :: nat where "ER_ROW_IS_REFERENCED_2 = 1451"
definition ER_LOCK_DEADLOCK :: nat where "ER_LOCK_DEADLOCK = 1213"
definition ER_PARSE_ERROR :: nat where "ER_PARSE_ERROR = 1064"
definition ER_CHECK_CONSTRAINT_VIOLATED :: nat where "ER_CHECK_CONSTRAINT_VIOLATED = 3819"

text \<open>
  \<open>constraintMatch\<close> is the regular-expression match that extracts a constraint name
  from the message.
\<close>

definition convertMySqlError :: "(string \<Rightarrow> string option) \<Rightarrow> thrown \<Rightarrow> thrown" where
  "convertMySqlError constraintMatch err =
     (if \<not> instanceofError err then MySqlError (messageOf err) None None None
      else
        (let msg = messageOf err; cause = Some err; en = errnoOf err; st = sqlStateOf err
         in if codeOf err = Some ''ECONNREFUSED'' then ConnectionRefusedError msg cause en st
            else if en = Some ER_ACCESS_DENIED_ERROR then AccessDeniedError msg cause en st
            else if en = Some ER_PARSE_ERROR then QuerySyntaxError msg cause en st
            else if en = Some ER_DUP_ENTRY \<or> en = Some ER_NO_REFERENCED_ROW_2
                    \<or> en = Some ER_ROW_IS_REFERENCED_2
                    \<or> en = Some ER_CHECK_CONSTRAINT_VIOLATED
              then ConstraintError msg
                     (case constraintMatch msg of None \<Rightarrow> ''unknown'' | Some k \<Rightarrow> k)
                     cause en st
            else if en = Some ER_LOCK_DEADLOCK then DeadlockError msg cause en st
            else MySqlError msg cause en st))"

section \<open>Releasing a client\<close>

lemma sqs_closes_closed:
  "closed c \<Longrightarrow> SqsClientImpl_closes ds c = (replicate (length ds) (Returned ()), c)"
  by (induction ds) (simp_all add: SqsClientImpl_close_def)

lemma mysql_closes_closed:
  "closed c \<Longrightarrow> MySqlClientImpl_closes ds c = (replicate (length ds) (Returned ()), c)"
  by (induction ds) (simp_all add: MySqlClientImpl_close_def)

lemma sqs_close_closed: "closed (snd (SqsClientImpl_close d c))"
  by (simp add: SqsClientImpl_close_def Let_def)

lemma mysql_close_closed: "closed (snd (MySqlClientImpl_close p c))"
  by (simp add: MySqlClientImpl_close_def Let_def split: promise.splits sum.splits)

text \<open>
  C9. After a first \<open>close()\<close> of the SQS client or of the MySQL client, whatever that
  call did, every further \<open>close()\<close> returns normally and leaves the client as it is:
  the SDK client is not destroyed again and the pool is not ended again. The first call
  releases at most once.
\<close>

theorem close_idempotent:
  "SqsClientImpl_closes ds (snd (SqsClientImpl_close d c))
     = (replicate (length ds) (Returned ()), snd (SqsClientImpl_close d c))
   \<and> destroyCalls (snd (SqsClientImpl_close d c)) \<le> destroyCalls c + 1
   \<and> MySqlClientImpl_closes ps (snd (MySqlClientImpl_close p m))
     = (replicate (length ps) (Returned ()), snd (MySqlClientImpl_close p m))
   \<and> poolEndCalls (snd (MySqlClientImpl_close p m)) \<le> poolEndCalls m + 1"
proof -
  have "destroyCalls (snd (SqsClientImpl_close d c)) \<le> destroyCalls c + 1"
    by (simp add: SqsClientImpl_close_def Let_def)
  moreover have "poolEndCalls (snd (MySqlClientImpl_close p m)) \<le> poolEndCalls m + 1"
    by (simp add: MySqlClientImpl_close_def Let_def split: promise.splits sum.splits)
  ultimately show ?thesis
    using sqs_closes_closed [OF sqs_close_closed] mysql_closes_closed [OF mysql_close_closed]
    by blast
qed

theorem close_idempotent_witness:
  "SqsClientImpl_closes [True, False]
      (snd (SqsClientImpl_close False
         \<lparr>closed = False, queueUrl = ''q'', destroyCalls = 0, dispatched = []\<rparr>))
     = ([Returned (), Returned ()],
        \<lparr>closed = True, queueUrl = ''q'', destroyCalls = 1, dispatched = []\<rparr>)
   \<and> MySqlClientImpl_closes [NeverSettles, Settles 3 (Inl (NonError ''x''))]
      (snd (MySqlClientImpl_close (Settles 5 (Inl (NonError ''boom'')))
         \<lparr>closed = False, poolEndCalls = 0\<rparr>))
     = ([Returned (), Returned ()], \<lparr>closed = True, poolEndCalls = 1\<rparr>)"
  using close_idempotent [of "[True, False]" False
      "\<lparr>closed = False, queueUrl = ''q'', destroyCalls = 0, dispatched = []\<rparr>"
      "[NeverSettles, Settles 3 (Inl (NonError ''x''))]" "Settles 5 (Inl (NonError ''boom''))"
      "\<lparr>closed = False, poolEndCalls = 0\<rparr>"]
  by (simp add: SqsClientImpl_close_def MySqlClientImpl_close_def)

section \<open>The message size limit\<close>

lemma utf8Length_Cons:
  "\<not> isHighSurrogate u \<Longrightarrow> utf8Length (u # xs) = unitBytes u + utf8Length xs"
  by (cases xs) auto

lemma utf8Length_replicate:
  "\<not> isHighSurrogate u \<Longrightarrow> utf8Length (replicate n u) = n * unitBytes u"
  by (induction n) (simp_all add: utf8Length_Cons)

lemma convertSqsError_not_too_large:
  "convertSqsError e op q \<noteq> SqsMessageTooLargeError m sz mx"
  by (cases e) (auto simp: convertSqsError_def Let_def split: if_splits)

lemma validateMessageSize_large:
  "utf8Length msgBody > 262144 \<Longrightarrow>
   validateMessageSize msgBody = Some (SqsMessageTooLargeError
      (''Message size '' @ string_of_nat (utf8Length msgBody)
         @ '' exceeds maximum allowed size '' @ string_of_nat 262144) (utf8Length msgBody) 262144)"
  by (simp add: validateMessageSize_def MAX_MESSAGE_SIZE_def Let_def)

lemma validateMessageSize_small:
  "utf8Length msgBody \<le> 262144 \<Longrightarrow> validateMessageSize msgBody = None"
  by (simp add: validateMessageSize_def MAX_MESSAGE_SIZE_def Let_def)

lemma validateMessageSize_Some:
  "validateMessageSize msgBody = Some e \<Longrightarrow> \<exists>m sz. e = SqsMessageTooLargeError m sz 262144"
  by (auto simp: validateMessageSize_def MAX_MESSAGE_SIZE_def Let_def split: if_splits)

lemma validateMessages_large:
  "(i, msgBody, d) \<in> set messages \<Longrightarrow> utf8Length msgBody > 262144 \<Longrightarrow>
   \<exists>m sz. validateMessages messages = Some (SqsMessageTooLargeError m sz 262144)"
proof (induction messages)
  case Nil
  then show ?case by simp
next
  case (Cons x xs)
  obtain j b e where x: "x = (j, b, e)" by (cases x) auto
  show ?case
  proof (cases "validateMessageSize b")
    case None
    then have "b \<noteq> msgBody" using Cons.prems(2) by (auto simp: validateMessageSize_large)
    then have "(i, msgBody, d) \<in> set xs" using Cons.prems(1) x by auto
    then show ?thesis using Cons.IH Cons.prems(2) None x by simp
  next
    case (Some err)
    then show ?thesis using validateMessageSize_Some [OF Some] x by auto
  qed
qed

lemma validateMessages_small:
  "\<forall>(i, msgBody, d) \<in> set messages. utf8Length msgBody \<le> 262144 \<Longrightarrow>
   validateMessages messages = None"
  by (induction messages) (auto simp: validateMessageSize_small)

text \<open>
  C10. On an open client, \<open>send\<close> with a body of more than 262144 UTF-8 bytes throws an
  SqsMessageTooLargeError and leaves the client as it was, so no command was
  dispatched; \<open>sendBatch\<close> does so for every batch holding such a body. A body, or a
  batch of bodies, within the limit never makes \<open>send\<close> or \<open>sendBatch\<close> throw an
  SqsMessageTooLargeError. (On a closed client both throw the closed-client
  SqsCommandError first, again without dispatching.)
\<close>

theorem message_size_limit:
  "(\<not> closed c \<longrightarrow> utf8Length msgBody > 262144 \<longrightarrow>
      SqsClientImpl_send c msgBody options response
        = (Thrown (SqsMessageTooLargeError
             (''Message size '' @ string_of_nat (utf8Length msgBody)
                @ '' exceeds maximum allowed size '' @ string_of_nat 262144)
             (utf8Length msgBody) 262144), c))
   \<and> (\<not> closed c \<longrightarrow> (i, msgBody, d) \<in> set messages \<longrightarrow> utf8Length msgBody > 262144 \<longrightarrow>
      (\<exists>m sz. SqsClientImpl_sendBatch c messages batchResponse
                 = (Thrown (SqsMessageTooLargeError m sz 262144), c)))
   \<and> (utf8Length msgBody \<le> 262144 \<longrightarrow>
      fst (SqsClientImpl_send c msgBody options response)
        \<noteq> Thrown (SqsMessageTooLargeError m' sz' mx'))
   \<and> ((\<forall>(i, msgBody, d) \<in> set messages. utf8Length msgBody \<le> 262144) \<longrightarrow>
      fst (SqsClientImpl_sendBatch c messages batchResponse)
        \<noteq> Thrown (SqsMessageTooLargeError m' sz' mx'))
   \<and> (closed c \<longrightarrow>
      SqsClientImpl_send c msgBody options response
        = (Thrown (SqsCommandError ''Client is closed'' [] None), c)
      \<and> SqsClientImpl_sendBatch c messages batchResponse
        = (Thrown (SqsCommandError ''Client is closed'' [] None), c))"
proof (intro conjI impI)
  assume "\<not> closed c" "utf8Length msgBody > 262144"
  then show "SqsClientImpl_send c msgBody options response
        = (Thrown (SqsMessageTooLargeError
             (''Message size '' @ string_of_nat (utf8Length msgBody)
                @ '' exceeds maximum allowed size '' @ string_of_nat 262144)
             (utf8Length msgBody) 262144), c)"
    by (simp add: SqsClientImpl_send_def ensureOpen_def validateMessageSize_large)
next
  assume "\<not> closed c" "(i, msgBody, d) \<in> set messages" "utf8Length msgBody > 262144"
  then show "\<exists>m sz. SqsClientImpl_sendBatch c messages batchResponse
                 = (Thrown (SqsMessageTooLargeError m sz 262144), c)"
    using validateMessages_large [of i msgBody d messages]
    by (auto simp: SqsClientImpl_sendBatch_def ensureOpen_def)
next
  assume "utf8Length msgBody \<le> 262144"
  then show "fst (SqsClientImpl_send c msgBody options response)
      \<noteq> Thrown (SqsMessageTooLargeError m' sz' mx')"
    by (auto simp: SqsClientImpl_send_def ensureOpen_def validateMessageSize_small Let_def
          convertSqsError_not_too_large split: promise.splits sum.splits)
next
  assume "\<forall>(i, msgBody, d) \<in> set messages. utf8Length msgBody \<le> 262144"
  then show "fst (SqsClientImpl_sendBatch c messages batchResponse)
      \<noteq> Thrown (SqsMessageTooLargeError m' sz' mx')"
    by (auto simp: SqsClientImpl_sendBatch_def ensureOpen_def validateMessages_small Let_def
          convertSqsError_not_too_large split: promise.splits sum.splits)
next
  assume "closed c"
  then show "SqsClientImpl_send c msgBody options response
      = (Thrown (SqsCommandError ''Client is closed'' [] None), c)"
    by (simp add: SqsClientImpl_send_def ensureOpen_def)
next
  assume "closed c"
  then show "SqsClientImpl_sendBatch c messages batchResponse
      = (Thrown (SqsCommandError ''Client is closed'' [] None), c)"
    by (simp add: SqsClientImpl_sendBatch_def ensureOpen_def)
qed

theorem message_size_limit_witness:
  "SqsClientImpl_send \<lparr>closed = False, queueUrl = ''q'', destroyCalls = 0, dispatched = []\<rparr>
      (replicate 262145 0x61) None NeverSettles
     = (Thrown (SqsMessageTooLargeError
          ''Message size 262145 exceeds maximum allowed size 262144'' 262145 262144),
        \<lparr>closed = False, queueUrl = ''q'', destroyCalls = 0, dispatched = []\<rparr>)
   \<and> (\<exists>m sz. SqsClientImpl_sendBatch
         \<lparr>closed = False, queueUrl = ''q'', destroyCalls = 0, dispatched = []\<rparr>
         [(''a'', [0x61], None), (''b'', replicate 262145 0x61, None)] NeverSettles
       = (Thrown (SqsMessageTooLargeError m sz 262144),
          \<lparr>closed = False, queueUrl = ''q'', destroyCalls = 0, dispatched = []\<rparr>))
   \<and> (\<forall>m sz mx. fst (SqsClientImpl_send
         \<lparr>closed = False, queueUrl = ''q'', destroyCalls = 0, dispatched = []\<rparr>
         (replicate 262144 0x61) None NeverSettles) \<noteq> Thrown (SqsMessageTooLargeError m sz mx))
   \<and> SqsClientImpl_send
         \<lparr>closed = True, queueUrl = ''q'', destroyCalls = 1, dispatched = []\<rparr>
         (replicate 262145 0x61) None NeverSettles
       = (Thrown (SqsCommandError ''Client is closed'' [] None),
          \<lparr>closed = True, queueUrl = ''q'', destroyCalls = 1, dispatched = []\<rparr>)"
proof -
  define big :: "16 word list" where "big = replicate 262145 0x61"
  define small :: "16 word list" where "small = replicate 262144 0x61"
  define c :: sqs_client
    where "c = \<lparr>closed = False, queueUrl = ''q'', destroyCalls = 0, dispatched = []\<rparr>"
  define c' :: sqs_client
    where "c' = \<lparr>closed = True, queueUrl = ''q'', destroyCalls = 1, dispatched = []\<rparr>"
  have big: "utf8Length big = 262145"
    unfolding big_def by (simp add: utf8Length_replicate isHighSurrogate_def unitBytes_def)
  have small: "utf8Length small = 262144"
    unfolding small_def by (simp add: utf8Length_replicate isHighSurrogate_def unitBytes_def)
  have d5: "string_of_nat 262145 = ''262145''" by (simp add: string_of_nat.simps)
  have d4: "string_of_nat 262144 = ''262144''" by (simp add: string_of_nat.simps)
  have "open": "\<not> closed c" and shut: "closed c'" by (simp_all add: c_def c'_def)
  note a = message_size_limit [of c big None NeverSettles
      "''b''" None "[(''a'', [0x61], None), (''b'', big, None)]" NeverSettles]
  note b = message_size_limit [of c small None NeverSettles]
  note s = message_size_limit [of c' big None NeverSettles]
  have 1: "SqsClientImpl_send c big None NeverSettles
     = (Thrown (SqsMessageTooLargeError
          ''Message size 262145 exceeds maximum allowed size 262144'' 262145 262144), c)"
    using a "open" big d5 d4 by simp
  have 2: "\<exists>m sz. SqsClientImpl_sendBatch c
         [(''a'', [0x61], None), (''b'', big, None)] NeverSettles
       = (Thrown (SqsMessageTooLargeError m sz 262144), c)"
    using a "open" big by simp
  have 3: "\<forall>m sz mx. fst (SqsClientImpl_send c small None NeverSettles)
      \<noteq> Thrown (SqsMessageTooLargeError m sz mx)"
    using b small by simp
  have 5: "SqsClientImpl_send c' big None NeverSettles
       = (Thrown (SqsCommandError ''Client is closed'' [] None), c')"
    using s shut by simp
  show ?thesis using 1 2 3 5 unfolding big_def small_def c_def c'_def by blast
qed

section \<open>Timeouts and aborts: thrown or returned\<close>

lemma convertSqsError_passthrough:
  "instanceofTimeoutError e \<or> instanceofAbortError e \<Longrightarrow> convertSqsError e op q = e"
  by (simp add: convertSqsError_def)

lemma convertFetchError_passthrough:
  "instanceofTimeoutError e \<or> instanceofAbortError e \<Longrightarrow> convertFetchError e = e"
  by (auto simp: convertFetchError_def)

lemma send_rejected:
  "\<not> closed c \<Longrightarrow> utf8Length b \<le> 262144 \<Longrightarrow>
   withOptions response options ''send'' = Settles t (Inl e) \<Longrightarrow>
   fst (SqsClientImpl_send c b options response)
     = Thrown (convertSqsError e ''send'' (Some (queueUrl c)))"
  by (simp add: SqsClientImpl_send_def ensureOpen_def validateMessageSize_small Let_def)

lemma request_rejected:
  "HttpClientImpl_request render decode cfg u options (Settles d (Inl e))
     = (if shouldThrow cfg options then Thrown (convertFetchError e)
        else Returned (createHttpResponseFailure u d (convertFetchError e)))"
  by (simp add: HttpClientImpl_request_def Let_def)

text \<open>
  C1 (as amended). A timeout or abort error that settles the attempt is thrown by the
  SQS client's \<open>send\<close> always: that client has no \<open>throwOnError\<close>. The HTTP client
  throws it only when \<open>throwOnError\<close> is true; when it is false or unset the request
  returns a failure response (processed false, ok false) that carries the error.
\<close>

theorem timeout_abort_policy:
  "(instanceofTimeoutError e \<or> instanceofAbortError e \<longrightarrow>
      \<not> closed c \<longrightarrow> utf8Length b \<le> 262144 \<longrightarrow>
      withOptions response options ''send'' = Settles t (Inl e) \<longrightarrow>
      fst (SqsClientImpl_send c b options response) = Thrown e)
   \<and> (instanceofTimeoutError e \<or> instanceofAbortError e \<longrightarrow>
      (HttpClientImpl_request render decode cfg u httpOptions (Settles d (Inl e))
          :: 'j http_response outcome)
        = (if shouldThrow cfg httpOptions then Thrown e
           else Returned (createHttpResponseFailure u d e))
      \<and> stateFailure (createHttpResponseFailure u d e :: 'j http_response))"
  by (auto simp: send_rejected request_rejected convertSqsError_passthrough
        convertFetchError_passthrough stateFailure_def createHttpResponseFailure_def
      elim: instanceofTimeoutError.elims instanceofAbortError.elims)

theorem timeout_abort_policy_witness:
  "fst (SqsClientImpl_send
          \<lparr>closed = False, queueUrl = ''q'', destroyCalls = 0, dispatched = []\<rparr> [0x68, 0x69]
          (Some \<lparr>timeout = Some 50, signal = None, delaySeconds = None,
                 messageGroupId = None, messageDeduplicationId = None\<rparr>)
          NeverSettles)
     = Thrown (TimeoutError ''Operation timed out: send'' 50 None)
   \<and> HttpClientImpl_request (\<lambda>t. t) (\<lambda>bs. []) \<lparr>configThrowOnError = None\<rparr> ''http://h/''
        (Some \<lparr>timeout = None, signal = None, throwOnError = Some True\<rparr>)
        (Settles 50 (Inl (TimeoutError ''Operation timed out: send'' 50 None)))
     = (Thrown (TimeoutError ''Operation timed out: send'' 50 None) :: unit http_response outcome)
   \<and> HttpClientImpl_request (\<lambda>t. t) (\<lambda>bs. []) \<lparr>configThrowOnError = None\<rparr> ''http://h/''
        None (Settles 50 (Inl (TimeoutError ''Operation timed out: send'' 50 None)))
     = Returned (createHttpResponseFailure ''http://h/'' 50
                   (TimeoutError ''Operation timed out: send'' 50 None) :: unit http_response)"
proof -
  let ?e = "TimeoutError ''Operation timed out: send'' 50 None"
  let ?c = "\<lparr>closed = False, queueUrl = ''q'', destroyCalls = 0, dispatched = []\<rparr>"
  let ?o = "Some \<lparr>timeout = Some 50, signal = None, delaySeconds = None,
                 messageGroupId = None, messageDeduplicationId = None\<rparr>"
  have w: "withOptions (NeverSettles :: send_response promise) ?o ''send'' = Settles 50 (Inl ?e)"
    by (simp add: withOptions_def noTimeout_def race_def timeoutPromise_def)
  have l: "utf8Length [0x68, 0x69] \<le> 262144"
    by (simp add: isHighSurrogate_def unitBytes_def)
  show ?thesis
    using timeout_abort_policy [of ?e ?c "[0x68, 0x69]" NeverSettles ?o 50
        "\<lambda>t. t" "\<lambda>bs. []" "\<lparr>configThrowOnError = None\<rparr>" "''http://h/''"
        "Some \<lparr>timeout = None, signal = None, throwOnError = Some True\<rparr>" 50, where ?'j = unit]
      timeout_abort_policy [of ?e ?c "[0x68, 0x69]" NeverSettles ?o 50
        "\<lambda>t. t" "\<lambda>bs. []" "\<lparr>configThrowOnError = None\<rparr>" "''http://h/''"
        None 50, where ?'j = unit] w l
    by (simp add: shouldThrow_def opt_def)
qed

text \<open>
  The claim as stated fails on the HTTP client: with \<open>throwOnError = false\<close> a fetch that
  is rejected by a timed-out signal makes the request return a failure response whose
  error is a TimeoutError.
\<close>

theorem timeout_returned_counterexample:
  "HttpClientImpl_request (\<lambda>t. t) (\<lambda>bs. []) \<lparr>configThrowOnError = None\<rparr> ''http://localhost/slow''
      (Some \<lparr>timeout = Some 50, signal = Some \<lparr>aborted = False, abortsAt = Some 50\<rparr>,
             throwOnError = Some False\<rparr>)
      (Settles 50 (Inl (NativeError \<lparr>name = ''TimeoutError'', message = ''Signal timed out.'',
                                     isTypeError = False, errno = None, code = None,
                                     sqlState = None\<rparr>)))
   = Returned
       (\<lparr>kind = Val ''http'', processed = Val False, ok = False,
         error = Val (TimeoutError ''Request timed out'' 0
                        (Some (NativeError \<lparr>name = ''TimeoutError'',
                                 message = ''Signal timed out.'', isTypeError = False,
                                 errno = None, code = None, sqlState = None\<rparr>))),
         duration = 50, url = ''http://localhost/slow'', status = Null, statusText = Null,
         headers = Null, body = Null, raw = Null, textCache = Undefined,
         jsonCache = Undefined, jsonParsed = False\<rparr> :: unit http_response)"
  by (simp add: HttpClientImpl_request_def convertFetchError_def shouldThrow_def opt_def
        createHttpResponseFailure_def)

section \<open>Failures as results\<close>

lemma request_error_status:
  "\<not> rawOk rawResponse \<Longrightarrow> rawBody rawResponse = Some (Inr bytes) \<Longrightarrow>
   (HttpClientImpl_request render decode cfg u options (Settles d (Inr rawResponse))
      :: 'j http_response outcome)
     = (let responseBody = (if length bytes > 0 then Val bytes else Null);
            httpError = createHttpError render (rawStatus rawResponse)
                          (rawStatusText rawResponse)
                          (if length bytes > 0 then Some (decode bytes) else None)
        in if shouldThrow cfg options then Thrown httpError
           else Returned (createHttpResponseError rawResponse responseBody d httpError))"
  by (simp add: HttpClientImpl_request_def Let_def)

lemma request_error_status_nobody:
  "\<not> rawOk rawResponse \<Longrightarrow> rawBody rawResponse = None \<Longrightarrow>
   (HttpClientImpl_request render decode cfg u options (Settles d (Inr rawResponse))
      :: 'j http_response outcome)
     = (let httpError = createHttpError render (rawStatus rawResponse)
                          (rawStatusText rawResponse) None
        in if shouldThrow cfg options then Thrown httpError
           else Returned (createHttpResponseError rawResponse Null d httpError))"
  by (simp add: HttpClientImpl_request_def Let_def)

lemma createHttpError_operation: "isOperationError (createHttpError render st stText bodyText)"
  by (simp add: createHttpError_def Let_def isOperationError_def HttpBadRequestError_def
        HttpUnauthorizedError_def HttpForbiddenError_def HttpNotFoundError_def
        HttpConflictError_def HttpTooManyRequestsError_def HttpInternalServerError_def)

lemma convertFetchError_transport: "isTransportFailure (convertFetchError e)"
  by (cases e) (simp_all add: convertFetchError_def)

text \<open>
  C3 (as amended). In the HTTP client with \<open>throwOnError\<close> false or unset, a rejected
  fetch is returned as a failure response and a response with a non-ok status whose
  body could be read is returned as an error response (processed true, ok false, an
  operation error); with \<open>throwOnError\<close> true the classified fetch error is thrown.
  The SQS client's \<open>send\<close> throws every rejection after classifying it.
\<close>

theorem failure_return_policy:
  "(\<not> shouldThrow cfg httpOptions \<longrightarrow>
      (HttpClientImpl_request render decode cfg u httpOptions (Settles d (Inl e))
         :: 'j http_response outcome)
        = Returned (createHttpResponseFailure u d (convertFetchError e))
      \<and> stateFailure (createHttpResponseFailure u d (convertFetchError e) :: 'j http_response))
   \<and> (\<not> shouldThrow cfg httpOptions \<longrightarrow> \<not> rawOk rawResponse \<longrightarrow>
      (\<forall>readError. rawBody rawResponse \<noteq> Some (Inl readError)) \<longrightarrow>
      (\<exists>r :: 'j http_response.
          HttpClientImpl_request render decode cfg u httpOptions (Settles d (Inr rawResponse))
            = Returned r
          \<and> stateError r \<and> status r = Val (rawStatus rawResponse)))
   \<and> (shouldThrow cfg httpOptions \<longrightarrow>
      (HttpClientImpl_request render decode cfg u httpOptions (Settles d (Inl e))
         :: 'j http_response outcome)
        = Thrown (convertFetchError e))
   \<and> (\<not> closed c \<longrightarrow> utf8Length b \<le> 262144 \<longrightarrow>
      withOptions response options ''send'' = Settles t (Inl e) \<longrightarrow>
      fst (SqsClientImpl_send c b options response)
        = Thrown (convertSqsError e ''send'' (Some (queueUrl c))))"
proof (intro conjI impI)
  assume "\<not> shouldThrow cfg httpOptions"
  then show "(HttpClientImpl_request render decode cfg u httpOptions (Settles d (Inl e))
         :: 'j http_response outcome)
        = Returned (createHttpResponseFailure u d (convertFetchError e))"
    by (simp add: request_rejected)
next
  show "stateFailure (createHttpResponseFailure u d (convertFetchError e) :: 'j http_response)"
    by (simp add: stateFailure_def createHttpResponseFailure_def convertFetchError_transport)
next
  assume nt: "\<not> shouldThrow cfg httpOptions" and nok: "\<not> rawOk rawResponse"
    and rd: "\<forall>readError. rawBody rawResponse \<noteq> Some (Inl readError)"
  show "\<exists>r :: 'j http_response.
          HttpClientImpl_request render decode cfg u httpOptions (Settles d (Inr rawResponse))
            = Returned r
          \<and> stateError r \<and> status r = Val (rawStatus rawResponse)"
  proof (cases "rawBody rawResponse")
    case None
    then show ?thesis
      using nt nok
      by (simp add: request_error_status_nobody Let_def stateError_def
            createHttpResponseError_def createHttpError_operation)
  next
    case (Some x)
    then obtain bytes where "rawBody rawResponse = Some (Inr bytes)"
      using rd by (cases x) auto
    then show ?thesis
      using nt nok
      by (simp add: request_error_status Let_def stateError_def
            createHttpResponseError_def createHttpError_operation)
  qed
next
  assume "shouldThrow cfg httpOptions"
  then show "(HttpClientImpl_request render decode cfg u httpOptions (Settles d (Inl e))
         :: 'j http_response outcome) = Thrown (convertFetchError e)"
    by (simp add: request_rejected)
next
  assume "\<not> closed c" "utf8Length b \<le> 262144"
    "withOptions response options ''send'' = Settles t (Inl e)"
  then show "fst (SqsClientImpl_send c b options response)
        = Thrown (convertSqsError e ''send'' (Some (queueUrl c)))"
    by (rule send_rejected)
qed

theorem failure_return_policy_witness:
  "(HttpClientImpl_request (\<lambda>t. t) (\<lambda>bs. ''gone'') \<lparr>configThrowOnError = None\<rparr> ''http://h/x''
      None
      (Settles 4 (Inl (NativeError \<lparr>name = ''TypeError'', message = ''refused'',
                          isTypeError = True, errno = None, code = None, sqlState = None\<rparr>)))
      :: unit http_response outcome)
     = Returned (createHttpResponseFailure ''http://h/x'' 4
         (HttpNetworkError ''Connection failed: refused''
            (Some (NativeError \<lparr>name = ''TypeError'', message = ''refused'',
                          isTypeError = True, errno = None, code = None, sqlState = None\<rparr>))))
   \<and> (\<exists>r :: unit http_response.
        HttpClientImpl_request (\<lambda>t. t) (\<lambda>bs. ''gone'') \<lparr>configThrowOnError = None\<rparr>
          ''http://h/x'' None
          (Settles 4 (Inr \<lparr>rawStatus = 404, rawStatusText = ''Not Found'', rawOk = False,
                           rawUrl = ''http://h/x'', rawHeaders = [],
                           rawBody = Some (Inr [0x67])\<rparr>))
          = Returned r
        \<and> stateError r \<and> status r = Val 404)
   \<and> (HttpClientImpl_request (\<lambda>t. t) (\<lambda>bs. ''gone'') \<lparr>configThrowOnError = Some True\<rparr>
        ''http://h/x'' None
        (Settles 4 (Inl (NativeError \<lparr>name = ''TypeError'', message = ''refused'',
                          isTypeError = True, errno = None, code = None, sqlState = None\<rparr>)))
      :: unit http_response outcome)
     = Thrown (HttpNetworkError ''Connection failed: refused''
            (Some (NativeError \<lparr>name = ''TypeError'', message = ''refused'',
                          isTypeError = True, errno = None, code = None, sqlState = None\<rparr>)))
   \<and> fst (SqsClientImpl_send
          \<lparr>closed = False, queueUrl = ''q'', destroyCalls = 0, dispatched = []\<rparr> [0x68, 0x69]
          None
          (Settles 4 (Inl (NativeError \<lparr>name = ''TypeError'', message = ''refused'',
                          isTypeError = True, errno = None, code = None, sqlState = None\<rparr>))))
     = Thrown (SqsCommandError ''refused'' ''send''
         (Some (NativeError \<lparr>name = ''TypeError'', message = ''refused'',
                          isTypeError = True, errno = None, code = None, sqlState = None\<rparr>)))"
proof -
  let ?raw = "\<lparr>rawStatus = 404, rawStatusText = ''Not Found'', rawOk = False,
          rawUrl = ''http://h/x'', rawHeaders = [], rawBody = Some (Inr [0x67])\<rparr>"
  let ?e = "NativeError \<lparr>name = ''TypeError'', message = ''refused'',
                          isTypeError = True, errno = None, code = None, sqlState = None\<rparr>"
  let ?c = "\<lparr>closed = False, queueUrl = ''q'', destroyCalls = 0, dispatched = []\<rparr>"
  have ns: "\<not> shouldThrow \<lparr>configThrowOnError = None\<rparr> None"
    and st: "shouldThrow \<lparr>configThrowOnError = Some True\<rparr> None"
    by (simp_all add: shouldThrow_def opt_def)
  have rd: "\<forall>readError. rawBody ?raw \<noteq> Some (Inl readError)" by simp
  have nok: "\<not> rawOk ?raw" by simp
  have l: "utf8Length [0x68, 0x69] \<le> 262144"
    by (simp add: isHighSurrogate_def unitBytes_def)
  have w: "withOptions (Settles 4 (Inl ?e) :: send_response promise) None ''send''
             = Settles 4 (Inl ?e)"
    by (simp add: withOptions_def)
  have cf: "convertFetchError ?e = HttpNetworkError ''Connection failed: refused'' (Some ?e)"
    by (simp add: convertFetchError_def)
  have cs: "convertSqsError ?e ''send'' (Some ''q'') = SqsCommandError ''refused'' ''send'' (Some ?e)"
    by (simp add: convertSqsError_def includes_part_def Let_def sublist_code)
  note a = failure_return_policy [where ?'j = unit, of "\<lparr>configThrowOnError = None\<rparr>" None
      "\<lambda>t. t" "\<lambda>bs. ''gone''" "''http://h/x''" 4 ?e ?raw ?c "[0x68, 0x69]"
      "Settles 4 (Inl ?e)" None 4]
  note b = failure_return_policy [where ?'j = unit, of "\<lparr>configThrowOnError = Some True\<rparr>"
      None "\<lambda>t. t" "\<lambda>bs. ''gone''" "''http://h/x''" 4 ?e ?raw ?c "[0x68, 0x69]"
      "Settles 4 (Inl ?e)" None 4]
  have 1: "(HttpClientImpl_request (\<lambda>t. t) (\<lambda>bs. ''gone'') \<lparr>configThrowOnError = None\<rparr>
        ''http://h/x'' None (Settles 4 (Inl ?e)) :: unit http_response outcome)
      = Returned (createHttpResponseFailure ''http://h/x'' 4
          (HttpNetworkError ''Connection failed: refused'' (Some ?e)))"
    using a ns cf by simp
  have 2: "\<exists>r :: unit http_response.
        HttpClientImpl_request (\<lambda>t. t) (\<lambda>bs. ''gone'') \<lparr>configThrowOnError = None\<rparr>
          ''http://h/x'' None (Settles 4 (Inr ?raw)) = Returned r
        \<and> stateError r \<and> status r = Val 404"
    using a ns rd nok by simp
  have 3: "(HttpClientImpl_request (\<lambda>t. t) (\<lambda>bs. ''gone'') \<lparr>configThrowOnError = Some True\<rparr>
        ''http://h/x'' None (Settles 4 (Inl ?e)) :: unit http_response outcome)
      = Thrown (HttpNetworkError ''Connection failed: refused'' (Some ?e))"
    using b st cf by simp
  have "fst (SqsClientImpl_send ?c [0x68, 0x69] None (Settles 4 (Inl ?e)))
      = Thrown (convertSqsError ?e ''send'' (Some (queueUrl ?c)))"
    using a [THEN conjunct2, THEN conjunct2, THEN conjunct2, rule_format, OF _ l w] by simp
  then have 4: "fst (SqsClientImpl_send ?c [0x68, 0x69] None (Settles 4 (Inl ?e)))
      = Thrown (SqsCommandError ''refused'' ''send'' (Some ?e))"
    using cs by simp
  show ?thesis using 1 2 3 4 by blast
qed

text \<open>
  The claim as stated fails on the SQS client: a queue that the backend reports as
  missing makes \<open>send\<close> throw an SqsQueueNotFoundError.
\<close>

theorem protocol_error_thrown_counterexample:
  "SqsClientImpl_send \<lparr>closed = False, queueUrl = ''q'', destroyCalls = 0, dispatched = []\<rparr>
      [0x68, 0x69] None
      (Settles 8 (Inl (NativeError \<lparr>name = ''QueueDoesNotExist'',
                         message = ''The specified queue does not exist.'', isTypeError = False,
                         errno = None, code = None, sqlState = None\<rparr>)))
   = (Thrown (SqsQueueNotFoundError ''The specified queue does not exist.'' ''q''
                (Some (NativeError \<lparr>name = ''QueueDoesNotExist'',
                         message = ''The specified queue does not exist.'', isTypeError = False,
                         errno = None, code = None, sqlState = None\<rparr>))),
      \<lparr>closed = False, queueUrl = ''q'', destroyCalls = 0,
       dispatched = [SendMessageCommand ''q'' [0x68, 0x69] None None None]\<rparr>)"
  by (simp add: SqsClientImpl_send_def ensureOpen_def validateMessageSize_def
        MAX_MESSAGE_SIZE_def isHighSurrogate_def unitBytes_def withOptions_def
        convertSqsError_def opt_def Let_def)

section \<open>Timeout and abort errors in the taxonomies\<close>

text \<open>
  C6 (as amended). The SQS and the HTTP taxonomy give a TimeoutError or an AbortError
  back unchanged. The MySQL taxonomy has no such case: it wraps the error in a
  MySqlError that keeps the message and has the error as its cause.
\<close>

theorem taxonomy_passthrough:
  "instanceofTimeoutError e \<or> instanceofAbortError e \<Longrightarrow>
     convertSqsError e operation q = e
     \<and> convertFetchError e = e
     \<and> convertMySqlError constraintMatch e = MySqlError (messageOf e) (Some e) None None"
  by (cases e)
     (simp_all add: convertSqsError_def convertFetchError_def convertMySqlError_def)

theorem taxonomy_passthrough_witness:
  "convertSqsError (AbortError ''Operation aborted: send'' None) ''send'' (Some ''q'')
     = AbortError ''Operation aborted: send'' None
   \<and> convertFetchError (TimeoutError ''Operation timed out: get'' 50 None)
     = TimeoutError ''Operation timed out: get'' 50 None
   \<and> convertMySqlError (\<lambda>m. None) (AbortError ''Operation aborted: send'' None)
     = MySqlError ''Operation aborted: send'' (Some (AbortError ''Operation aborted: send'' None))
         None None"
  using taxonomy_passthrough [of "AbortError ''Operation aborted: send'' None" "''send''"
      "Some ''q''" "\<lambda>m. None"]
    taxonomy_passthrough [of "TimeoutError ''Operation timed out: get'' 50 None" "''send''"
      "Some ''q''" "\<lambda>m. None"]
  by simp

text \<open>
  The claim as stated fails on convertMySqlError: a TimeoutError comes back as a
  MySqlError.
\<close>

theorem taxonomy_reclassifies_counterexample:
  "convertMySqlError (\<lambda>m. None) (TimeoutError ''Operation timed out: query'' 50 None)
     = MySqlError ''Operation timed out: query''
         (Some (TimeoutError ''Operation timed out: query'' 50 None)) None None"
  by (simp add: convertMySqlError_def ER_ACCESS_DENIED_ERROR_def ER_PARSE_ERROR_def
        ER_DUP_ENTRY_def ER_NO_REFERENCED_ROW_2_def ER_ROW_IS_REFERENCED_2_def
        ER_CHECK_CONSTRAINT_VIOLATED_def ER_LOCK_DEADLOCK_def)

section \<open>The three states of a result\<close>

lemma triState_success:
  "processed r = Val True \<Longrightarrow> ok r \<Longrightarrow> error r = Null \<Longrightarrow>
   triState r \<and> stateSuccess r"
  by (simp add: triState_def stateSuccess_def stateError_def stateFailure_def)

lemma triState_error:
  "processed r = Val True \<Longrightarrow> \<not> ok r \<Longrightarrow> error r = Val e \<Longrightarrow> isOperationError e \<Longrightarrow>
   triState r \<and> stateError r"
  by (simp add: triState_def stateSuccess_def stateError_def stateFailure_def)

lemma triState_failure:
  "processed r = Val False \<Longrightarrow> \<not> ok r \<Longrightarrow> error r = Val e \<Longrightarrow> isTransportFailure e \<Longrightarrow>
   triState r \<and> stateFailure r"
  by (simp add: triState_def stateSuccess_def stateError_def stateFailure_def)

lemma triState_no_processed: "processed r = Undefined \<Longrightarrow> \<not> triState r"
  by (simp add: triState_def stateSuccess_def stateError_def stateFailure_def)

text \<open>
  C2 (as amended). Every result built by the SQS send, send-batch, delete and
  delete-batch factories, by the Redis GET and SET factories and by the HTTP response
  factories is in exactly one of the three states: the success factories give the
  success state, the error factories the error state when given an operation error,
  the failure factories the failure state when given a transport failure. A MongoDB
  failure result has no \<open>processed\<close> field and is in none of the states.
\<close>

theorem factory_tri_state:
  "(triState (createSqsSendResultSuccess mid md5 seqNo d)
      \<and> stateSuccess (createSqsSendResultSuccess mid md5 seqNo d)
    \<and> triState (createSqsSendBatchResultSuccess succ fl d)
      \<and> stateSuccess (createSqsSendBatchResultSuccess succ fl d)
    \<and> triState (createSqsDeleteResultSuccess d)
      \<and> stateSuccess (createSqsDeleteResultSuccess d)
    \<and> triState (createSqsDeleteBatchResultSuccess handles fl d)
      \<and> stateSuccess (createSqsDeleteBatchResultSuccess handles fl d)
    \<and> triState (createRedisGetResultSuccess v d)
      \<and> stateSuccess (createRedisGetResultSuccess v d)
    \<and> triState (createRedisSetResultSuccess d)
      \<and> stateSuccess (createRedisSetResultSuccess d)
    \<and> triState (createHttpResponseSuccess rawResponse bytes d :: 'j http_response)
      \<and> stateSuccess (createHttpResponseSuccess rawResponse bytes d :: 'j http_response))
   \<and> (isOperationError e \<longrightarrow>
      triState (createSqsSendResultError e d) \<and> stateError (createSqsSendResultError e d)
    \<and> triState (createSqsSendBatchResultError e d)
      \<and> stateError (createSqsSendBatchResultError e d)
    \<and> triState (createSqsDeleteResultError e d) \<and> stateError (createSqsDeleteResultError e d)
    \<and> triState (createSqsDeleteBatchResultError e d)
      \<and> stateError (createSqsDeleteBatchResultError e d)
    \<and> triState (createRedisGetResultError e d) \<and> stateError (createRedisGetResultError e d)
    \<and> triState (createRedisSetResultError e d) \<and> stateError (createRedisSetResultError e d)
    \<and> triState (createHttpResponseError rawResponse bytes d e :: 'j http_response)
      \<and> stateError (createHttpResponseError rawResponse bytes d e :: 'j http_response))
   \<and> (isTransportFailure e \<longrightarrow>
      triState (createSqsSendResultFailure e d) \<and> stateFailure (createSqsSendResultFailure e d)
    \<and> triState (createSqsSendBatchResultFailure e d)
      \<and> stateFailure (createSqsSendBatchResultFailure e d)
    \<and> triState (createSqsDeleteResultFailure e d)
      \<and> stateFailure (createSqsDeleteResultFailure e d)
    \<and> triState (createSqsDeleteBatchResultFailure e d)
      \<and> stateFailure (createSqsDeleteBatchResultFailure e d)
    \<and> triState (createRedisGetResultFailure e d) \<and> stateFailure (createRedisGetResultFailure e d)
    \<and> triState (createRedisSetResultFailure e d) \<and> stateFailure (createRedisSetResultFailure e d)
    \<and> triState (createHttpResponseFailure u d e :: 'j http_response)
      \<and> stateFailure (createHttpResponseFailure u d e :: 'j http_response))
   \<and> \<not> triState (createMongoFindFailure e d)"
proof (intro conjI impI)
  show "triState (createSqsSendResultSuccess mid md5 seqNo d)"
    and "stateSuccess (createSqsSendResultSuccess mid md5 seqNo d)"
    by (simp_all add: triState_success createSqsSendResultSuccess_def)
  show "triState (createSqsSendBatchResultSuccess succ fl d)"
    and "stateSuccess (createSqsSendBatchResultSuccess succ fl d)"
    by (simp_all add: triState_success createSqsSendBatchResultSuccess_def)
  show "triState (createSqsDeleteResultSuccess d)"
    and "stateSuccess (createSqsDeleteResultSuccess d)"
    by (simp_all add: triState_success createSqsDeleteResultSuccess_def)
  show "triState (createSqsDeleteBatchResultSuccess handles fl d)"
    and "stateSuccess (createSqsDeleteBatchResultSuccess handles fl d)"
    by (simp_all add: triState_success createSqsDeleteBatchResultSuccess_def)
  show "triState (createRedisGetResultSuccess v d)"
    and "stateSuccess (createRedisGetResultSuccess v d)"
    by (simp_all add: triState_success createRedisGetResultSuccess_def)
  show "triState (createRedisSetResultSuccess d)"
    and "stateSuccess (createRedisSetResultSuccess d)"
    by (simp_all add: triState_success createRedisSetResultSuccess_def)
  show "triState (createHttpResponseSuccess rawResponse bytes d :: 'j http_response)"
    and "stateSuccess (createHttpResponseSuccess rawResponse bytes d :: 'j http_response)"
    by (simp_all add: triState_success createHttpResponseSuccess_def)
next
  assume e: "isOperationError e"
  show "triState (createSqsSendResultError e d)" and "stateError (createSqsSendResultError e d)"
    using e by (simp_all add: triState_error [where e = e] createSqsSendResultError_def)
  show "triState (createSqsSendBatchResultError e d)"
    and "stateError (createSqsSendBatchResultError e d)"
    using e by (simp_all add: triState_error [where e = e] createSqsSendBatchResultError_def)
  show "triState (createSqsDeleteResultError e d)"
    and "stateError (createSqsDeleteResultError e d)"
    using e by (simp_all add: triState_error [where e = e] createSqsDeleteResultError_def)
  show "triState (createSqsDeleteBatchResultError e d)"
    and "stateError (createSqsDeleteBatchResultError e d)"
    using e by (simp_all add: triState_error [where e = e] createSqsDeleteBatchResultError_def)
  show "triState (createRedisGetResultError e d)"
    and "stateError (createRedisGetResultError e d)"
    using e by (simp_all add: triState_error [where e = e] createRedisGetResultError_def)
  show "triState (createRedisSetResultError e d)"
    and "stateError (createRedisSetResultError e d)"
    using e by (simp_all add: triState_error [where e = e] createRedisSetResultError_def)
  show "triState (createHttpResponseError rawResponse bytes d e :: 'j http_response)"
    and "stateError (createHttpResponseError rawResponse bytes d e :: 'j http_response)"
    using e by (simp_all add: triState_error [where e = e] createHttpResponseError_def)
next
  assume e: "isTransportFailure e"
  show "triState (createSqsSendResultFailure e d)"
    and "stateFailure (createSqsSendResultFailure e d)"
    using e by (simp_all add: triState_failure [where e = e] createSqsSendResultFailure_def)
  show "triState (createSqsSendBatchResultFailure e d)"
    and "stateFailure (createSqsSendBatchResultFailure e d)"
    using e by (simp_all add: triState_failure [where e = e] createSqsSendBatchResultFailure_def)
  show "triState (createSqsDeleteResultFailure e d)"
    and "stateFailure (createSqsDeleteResultFailure e d)"
    using e by (simp_all add: triState_failure [where e = e] createSqsDeleteResultFailure_def)
  show "triState (createSqsDeleteBatchResultFailure e d)"
    and "stateFailure (createSqsDeleteBatchResultFailure e d)"
    using e by (simp_all add: triState_failure [where e = e] createSqsDeleteBatchResultFailure_def)
  show "triState (createRedisGetResultFailure e d)"
    and "stateFailure (createRedisGetResultFailure e d)"
    using e by (simp_all add: triState_failure [where e = e] createRedisGetResultFailure_def)
  show "triState (createRedisSetResultFailure e d)"
    and "stateFailure (createRedisSetResultFailure e d)"
    using e by (simp_all add: triState_failure [where e = e] createRedisSetResultFailure_def)
  show "triState (createHttpResponseFailure u d e :: 'j http_response)"
    and "stateFailure (createHttpResponseFailure u d e :: 'j http_response)"
    using e by (simp_all add: triState_failure [where e = e] createHttpResponseFailure_def)
next
  show "\<not> triState (createMongoFindFailure e d)"
    by (simp add: triState_no_processed createMongoFindFailure_def)
qed

theorem factory_tri_state_witness:
  "triState (createRedisGetResultSuccess (Val ''v'') 3)
   \<and> triState (createRedisGetResultError (SqsCommandError ''WRONGTYPE'' ''get'' None) 3)
   \<and> stateError (createSqsSendResultError (SqsCommandError ''denied'' ''send'' None) 3)
   \<and> triState (createRedisGetResultFailure (TimeoutError ''Operation timed out: get'' 50 None) 50)
   \<and> stateFailure
        (createSqsSendBatchResultFailure (TimeoutError ''Operation timed out: get'' 50 None) 50)"
proof -
  have o: "isOperationError (SqsCommandError ''WRONGTYPE'' ''get'' None)"
    and o': "isOperationError (SqsCommandError ''denied'' ''send'' None)"
    by (simp_all add: isOperationError_def)
  have t: "isTransportFailure (TimeoutError ''Operation timed out: get'' 50 None)" by simp
  let ?raw = "\<lparr>rawStatus = 200, rawStatusText = ''OK'', rawOk = True, rawUrl = ''http://h/'',
                rawHeaders = [], rawBody = None\<rparr>"
  note a = factory_tri_state [where ?'j = unit, of "''m''" "''5''" Undefined 3 "[]" "[]" "[]"
      "Val ''v''" ?raw Null "SqsCommandError ''WRONGTYPE'' ''get'' None" "''u''"]
  note b = factory_tri_state [where ?'j = unit, of "''m''" "''5''" Undefined 3 "[]" "[]" "[]"
      "Val ''v''" ?raw Null "SqsCommandError ''denied'' ''send'' None" "''u''"]
  note c = factory_tri_state [where ?'j = unit, of "''m''" "''5''" Undefined 50 "[]" "[]" "[]"
      "Val ''v''" ?raw Null "TimeoutError ''Operation timed out: get'' 50 None" "''u''"]
  have 1: "triState (createRedisGetResultSuccess (Val ''v'') 3)"
    using a by simp
  have 2: "triState (createRedisGetResultError (SqsCommandError ''WRONGTYPE'' ''get'' None) 3)"
    using a o by simp
  have 3: "stateError (createSqsSendResultError (SqsCommandError ''denied'' ''send'' None) 3)"
    using b o' by simp
  have 4: "triState (createRedisGetResultFailure
                       (TimeoutError ''Operation timed out: get'' 50 None) 50)"
    and 5: "stateFailure (createSqsSendBatchResultFailure
                       (TimeoutError ''Operation timed out: get'' 50 None) 50)"
    using c t by simp_all
  show ?thesis using 1 2 3 4 5 by blast
qed

text \<open>
  The claim as stated fails on what the SQS client returns: the object that \<open>send\<close>
  returns has no \<open>processed\<close> and no \<open>error\<close> field, so it is in none of the states.
\<close>

theorem client_result_not_tri_state_counterexample:
  "SqsClientImpl_send \<lparr>closed = False, queueUrl = ''q'', destroyCalls = 0, dispatched = []\<rparr>
      [0x68, 0x69] None
      (Settles 7 (Inr \<lparr>MessageId = Val ''m-1'', MD5OfMessageBody = Val ''49f6'',
                       SequenceNumber = Undefined\<rparr>))
   = (Returned \<lparr>kind = Undefined, processed = Undefined, ok = True, error = Undefined,
                duration = 7, messageId = Val ''m-1'', md5OfBody = Val ''49f6'',
                sequenceNumber = Undefined\<rparr>,
      \<lparr>closed = False, queueUrl = ''q'', destroyCalls = 0,
       dispatched = [SendMessageCommand ''q'' [0x68, 0x69] None None None]\<rparr>)
   \<and> \<not> triState \<lparr>kind = Undefined, processed = Undefined, ok = True, error = Undefined,
                duration = 7, messageId = Val ''m-1'', md5OfBody = Val ''49f6'',
                sequenceNumber = Undefined\<rparr>"
  by (simp add: SqsClientImpl_send_def ensureOpen_def validateMessageSize_def
        MAX_MESSAGE_SIZE_def isHighSurrogate_def unitBytes_def withOptions_def
        opt_def Let_def triState_no_processed)

section \<open>Batch results\<close>

text \<open>
  C4. A batch of three messages of which the backend accepts the first and the third and
  rejects the second: \<open>sendBatch\<close> returns two successful entries, one failed entry and
  \<open>ok = false\<close>, since it computes \<open>ok\<close> as \<open>failed.length === 0\<close>; \<open>deleteBatch\<close> does the
  same. The factory createSqsSendBatchResultSuccess gives \<open>ok = true\<close> for the same
  entries.
\<close>

theorem batch_partial_failure_not_ok:
  "SqsClientImpl_sendBatch
      \<lparr>closed = False, queueUrl = ''q'', destroyCalls = 0, dispatched = []\<rparr>
      [(''1'', [0x61], None), (''2'', [0x62], None), (''3'', [0x63], None)]
      (Settles 12 (Inr \<lparr>Successful = Some [SdkSuccessEntry ''1'' ''m-1'',
                                               SdkSuccessEntry ''3'' ''m-3''],
                        Failed = Some [SdkFailedEntry ''2'' ''InvalidParameterValue''
                                         (Some ''bad'')]\<rparr>))
   = (Returned \<lparr>kind = Undefined, processed = Undefined, ok = False, error = Undefined,
                duration = 12,
                successful = Val [SqsBatchSuccessEntry ''m-1'' ''1'',
                                  SqsBatchSuccessEntry ''m-3'' ''3''],
                failed = Val [SqsBatchFailedEntry ''2'' ''InvalidParameterValue'' ''bad'']\<rparr>,
      \<lparr>closed = False, queueUrl = ''q'', destroyCalls = 0,
       dispatched = [SendMessageBatchCommand ''q''
          [(''1'', [0x61], None), (''2'', [0x62], None), (''3'', [0x63], None)]]\<rparr>)
   \<and> fst (SqsClientImpl_deleteBatch
          \<lparr>closed = False, queueUrl = ''q'', destroyCalls = 0, dispatched = []\<rparr>
          [''h-a'', ''h-b'', ''h-c''] None
          (Settles 12 (Inr \<lparr>Successful = Some [SdkSuccessEntry ''0'' [],
                                                   SdkSuccessEntry ''2'' []],
                            Failed = Some [SdkFailedEntry ''1'' ''ReceiptHandleIsInvalid''
                                             None]\<rparr>)))
     = Returned \<lparr>kind = Undefined, processed = Undefined, ok = False, error = Undefined,
                 duration = 12, successful = Val [''0'', ''2''],
                 failed = Val [SqsBatchFailedEntry ''1'' ''ReceiptHandleIsInvalid'' []]\<rparr>
   \<and> ok (createSqsSendBatchResultSuccess
           [SqsBatchSuccessEntry ''m-1'' ''1'', SqsBatchSuccessEntry ''m-3'' ''3'']
           [SqsBatchFailedEntry ''2'' ''InvalidParameterValue'' ''bad''] 12)"
  by (simp add: SqsClientImpl_sendBatch_def SqsClientImpl_deleteBatch_def ensureOpen_def
        validateMessageSize_def MAX_MESSAGE_SIZE_def unitBytes_def withOptions_def
        orEmpty_def Let_def createSqsSendBatchResultSuccess_def)

text \<open>
  C5 (as amended). The batch failure results (transport failure) have \<open>successful\<close> and
  \<open>failed\<close> null and \<open>ok\<close> false; the batch error results (operation error) have both
  as empty arrays and \<open>ok\<close> false.
\<close>

theorem batch_failure_results:
  "successful (createSqsSendBatchResultFailure e d) = Null
   \<and> failed (createSqsSendBatchResultFailure e d) = Null
   \<and> \<not> ok (createSqsSendBatchResultFailure e d)
   \<and> processed (createSqsSendBatchResultFailure e d) = Val False
   \<and> successful (createSqsDeleteBatchResultFailure e d) = Null
   \<and> failed (createSqsDeleteBatchResultFailure e d) = Null
   \<and> \<not> ok (createSqsDeleteBatchResultFailure e d)
   \<and> processed (createSqsDeleteBatchResultFailure e d) = Val False
   \<and> successful (createSqsSendBatchResultError e d) = Val []
   \<and> failed (createSqsSendBatchResultError e d) = Val []
   \<and> \<not> ok (createSqsSendBatchResultError e d)
   \<and> processed (createSqsSendBatchResultError e d) = Val True
   \<and> successful (createSqsDeleteBatchResultError e d) = Val []
   \<and> failed (createSqsDeleteBatchResultError e d) = Val []
   \<and> \<not> ok (createSqsDeleteBatchResultError e d)
   \<and> processed (createSqsDeleteBatchResultError e d) = Val True"
  by (simp add: createSqsSendBatchResultFailure_def createSqsDeleteBatchResultFailure_def
        createSqsSendBatchResultError_def createSqsDeleteBatchResultError_def)

theorem batch_failure_results_witness:
  "successful (createSqsSendBatchResultFailure
                 (SqsConnectionError ''connect ECONNREFUSED'' None) 3) = Null
   \<and> failed (createSqsSendBatchResultFailure
                 (SqsConnectionError ''connect ECONNREFUSED'' None) 3) = Null
   \<and> \<not> ok (createSqsSendBatchResultFailure
                 (SqsConnectionError ''connect ECONNREFUSED'' None) 3)"
  using batch_failure_results [of "SqsConnectionError ''connect ECONNREFUSED'' None" 3]
  by simp

text \<open>
  The claim as stated fails for a batch call that hit an operation error: the error
  result holds empty arrays, not null.
\<close>

theorem batch_error_empty_arrays_counterexample:
  "successful (createSqsSendBatchResultError
                 (SqsCommandError ''Malformed request'' ''sendBatch'' None) 3) = Val []
   \<and> failed (createSqsSendBatchResultError
                 (SqsCommandError ''Malformed request'' ''sendBatch'' None) 3) = Val []
   \<and> successful (createSqsSendBatchResultError
                 (SqsCommandError ''Malformed request'' ''sendBatch'' None) 3) \<noteq> Null"
  by (simp add: createSqsSendBatchResultError_def)

section \<open>The duration carried by a TimeoutError\<close>

lemma first_settled_cases: "first_settled p q = p \<or> first_settled p q = q"
  by (cases p; cases q) auto

lemma race2: "race [p, q] = p \<or> race [p, q] = q"
  using first_settled_cases [of p q] by (simp add: race_def)

lemma race3: "race [p, q, r] = p \<or> race [p, q, r] = q \<or> race [p, q, r] = r"
  using first_settled_cases [of p q] first_settled_cases [of "first_settled p q" r]
  by (auto simp: race_def)

lemma abortPromise_not_timeout:
  "abortPromise sig op = Settles t (Inl e) \<Longrightarrow> \<not> instanceofTimeoutError e"
  by (auto simp: abortPromise_def split: option.splits)

lemma withOptions_sources:
  assumes "withOptions p options op = Settles t (Inl e)" and "p \<noteq> Settles t (Inl e)"
  shows "(\<exists>opts ms. options = Some opts \<and> timeout opts = Some ms
            \<and> e = TimeoutError (''Operation timed out: '' @ op) ms None)
         \<or> e = AbortError (''Operation aborted: '' @ op) None"
proof (cases options)
  case None
  then show ?thesis using assms by (simp add: withOptions_def)
next
  case (Some opts)
  show ?thesis
  proof (cases "timeout opts")
    case None
    note tn = None
    show ?thesis
    proof (cases "signal opts")
      case None
      then show ?thesis using assms Some tn by (simp add: withOptions_def noTimeout_def)
    next
      case (Some sig)
      then show ?thesis
        using assms \<open>options = Some opts\<close> tn race2 [of p "abortPromise sig op"]
        by (auto simp: withOptions_def noTimeout_def abortPromise_def
              split: if_splits option.splits)
    qed
  next
    case (Some ms)
    note ts = Some
    show ?thesis
    proof (cases "signal opts")
      case None
      then show ?thesis
        using assms \<open>options = Some opts\<close> ts race2 [of p "timeoutPromise ms op"]
        by (auto simp: withOptions_def noTimeout_def timeoutPromise_def split: if_splits)
    next
      case (Some sig)
      then show ?thesis
        using assms \<open>options = Some opts\<close> ts
          race3 [of p "timeoutPromise ms op" "abortPromise sig op"]
        by (auto simp: withOptions_def noTimeout_def timeoutPromise_def abortPromise_def
              split: if_splits option.splits)
    qed
  qed
qed

text \<open>
  C7 (as amended). An error with which withOptions rejects and which is not the
  operation's own rejection is either a TimeoutError whose \<open>timeoutMs\<close> is the configured
  \<open>options.timeout\<close>, or an AbortError, which has no \<open>timeoutMs\<close>. The TimeoutError that
  convertFetchError makes from a platform error named TimeoutError has \<open>timeoutMs = 0\<close>;
  the AbortError it makes from one named AbortError has none.
\<close>

theorem timeout_error_duration:
  "(withOptions p options operation = Settles t (Inl e) \<longrightarrow> p \<noteq> Settles t (Inl e) \<longrightarrow>
      instanceofTimeoutError e \<longrightarrow>
      (\<exists>opts. options = Some opts \<and> timeout opts = timeoutMs e \<and> timeoutMs e \<noteq> None))
   \<and> (withOptions p options operation = Settles t (Inl e) \<longrightarrow> p \<noteq> Settles t (Inl e) \<longrightarrow>
      \<not> instanceofTimeoutError e \<longrightarrow> instanceofAbortError e \<and> timeoutMs e = None)
   \<and> (name n = ''TimeoutError'' \<longrightarrow>
      convertFetchError (NativeError n) = TimeoutError ''Request timed out'' 0 (Some (NativeError n))
      \<and> timeoutMs (convertFetchError (NativeError n)) = Some 0)
   \<and> (name n = ''AbortError'' \<longrightarrow>
      convertFetchError (NativeError n) = AbortError ''Request was aborted'' (Some (NativeError n))
      \<and> timeoutMs (convertFetchError (NativeError n)) = None)
   \<and> (instanceofAbortError e \<longrightarrow> timeoutMs e = None)"
proof (intro conjI impI)
  assume a: "withOptions p options operation = Settles t (Inl e)" "p \<noteq> Settles t (Inl e)"
    and te: "instanceofTimeoutError e"
  from withOptions_sources [OF a] te
  show "\<exists>opts. options = Some opts \<and> timeout opts = timeoutMs e \<and> timeoutMs e \<noteq> None"
    by auto
next
  assume a: "withOptions p options operation = Settles t (Inl e)" "p \<noteq> Settles t (Inl e)"
    and te: "\<not> instanceofTimeoutError e"
  from withOptions_sources [OF a] te show "instanceofAbortError e" by auto
  from withOptions_sources [OF a] te show "timeoutMs e = None" by auto
next
  assume "name n = ''TimeoutError''"
  then show "convertFetchError (NativeError n)
      = TimeoutError ''Request timed out'' 0 (Some (NativeError n))"
    and "timeoutMs (convertFetchError (NativeError n)) = Some 0"
    by (simp_all add: convertFetchError_def)
next
  assume "name n = ''AbortError''"
  then show "convertFetchError (NativeError n)
      = AbortError ''Request was aborted'' (Some (NativeError n))"
    and "timeoutMs (convertFetchError (NativeError n)) = None"
    by (simp_all add: convertFetchError_def)
next
  assume "instanceofAbortError e"
  then show "timeoutMs e = None" by (cases e) simp_all
qed

theorem timeout_error_duration_witness:
  "withOptions (NeverSettles :: send_response promise)
      (Some \<lparr>timeout = Some 50, signal = None\<rparr>) ''receive''
     = Settles 50 (Inl (TimeoutError ''Operation timed out: receive'' 50 None))
   \<and> timeoutMs (TimeoutError ''Operation timed out: receive'' 50 None) = Some 50
   \<and> withOptions (Settles 80 (Inr \<lparr>MessageId = Undefined, MD5OfMessageBody = Undefined,
                                   SequenceNumber = Undefined\<rparr>))
      (Some \<lparr>timeout = None, signal = Some \<lparr>aborted = False, abortsAt = Some 20\<rparr>\<rparr>) ''receive''
     = Settles 20 (Inl (AbortError ''Operation aborted: receive'' None))
   \<and> timeoutMs (AbortError ''Operation aborted: receive'' None) = None
   \<and> timeoutMs (convertFetchError (NativeError \<lparr>name = ''TimeoutError'',
         message = ''Signal timed out.'', isTypeError = False, errno = None, code = None,
         sqlState = None\<rparr>)) = Some 0"
proof -
  let ?p = "NeverSettles :: send_response promise"
  let ?q = "Settles 80 (Inr \<lparr>MessageId = Undefined, MD5OfMessageBody = Undefined,
                                   SequenceNumber = Undefined\<rparr>) :: send_response promise"
  let ?o = "Some \<lparr>timeout = Some 50, signal = None\<rparr>"
  let ?o' = "Some \<lparr>timeout = None, signal = Some \<lparr>aborted = False, abortsAt = Some 20\<rparr>\<rparr>"
  let ?e = "TimeoutError ''Operation timed out: receive'' 50 None"
  let ?a = "AbortError ''Operation aborted: receive'' None"
  let ?n = "\<lparr>name = ''TimeoutError'', message = ''Signal timed out.'', isTypeError = False,
             errno = None, code = None, sqlState = None\<rparr>"
  have w: "withOptions ?p ?o ''receive'' = Settles 50 (Inl ?e)"
    by (simp add: withOptions_def noTimeout_def race_def timeoutPromise_def)
  have w': "withOptions ?q ?o' ''receive'' = Settles 20 (Inl ?a)"
    by (simp add: withOptions_def noTimeout_def race_def abortPromise_def)
  have ne: "?p \<noteq> Settles 50 (Inl ?e)" and ne': "?q \<noteq> Settles 20 (Inl ?a)" by simp_all
  have te: "instanceofTimeoutError ?e" and ta: "\<not> instanceofTimeoutError ?a" by simp_all
  note x = timeout_error_duration [of ?p ?o "''receive''" 50 ?e ?n]
  note y = timeout_error_duration [of ?q ?o' "''receive''" 20 ?a ?n]
  have 1: "timeoutMs ?e = Some 50"
    using x [THEN conjunct1, rule_format, OF w ne te] by auto
  have 2: "timeoutMs ?a = None"
    using y [THEN conjunct2, THEN conjunct1, rule_format, OF w' ne' ta] by simp
  have 3: "timeoutMs (convertFetchError (NativeError ?n)) = Some 0"
    using x [THEN conjunct2, THEN conjunct2, THEN conjunct1] by simp
  show ?thesis using w w' 1 2 3 by blast
qed

text \<open>
  The claim as stated fails on the HTTP client: a request configured with a timeout of
  50 ms whose fetch is rejected by the timed-out signal throws a TimeoutError with
  \<open>timeoutMs = 0\<close>.
\<close>

theorem http_timeout_duration_counterexample:
  "(HttpClientImpl_request (\<lambda>t. t) (\<lambda>bs. []) \<lparr>configThrowOnError = None\<rparr> ''http://localhost/slow''
      (Some \<lparr>timeout = Some 50, signal = Some \<lparr>aborted = False, abortsAt = Some 50\<rparr>,
             throwOnError = Some True\<rparr>)
      (Settles 50 (Inl (NativeError \<lparr>name = ''TimeoutError'', message = ''Signal timed out.'',
                                     isTypeError = False, errno = None, code = None,
                                     sqlState = None\<rparr>))) :: unit http_response outcome)
   = Thrown (TimeoutError ''Request timed out'' 0
               (Some (NativeError \<lparr>name = ''TimeoutError'', message = ''Signal timed out.'',
                                    isTypeError = False, errno = None, code = None,
                                    sqlState = None\<rparr>)))
   \<and> timeoutMs (TimeoutError ''Request timed out'' 0
               (Some (NativeError \<lparr>name = ''TimeoutError'', message = ''Signal timed out.'',
                                    isTypeError = False, errno = None, code = None,
                                    sqlState = None\<rparr>))) \<noteq> Some 50"
  by (simp add: HttpClientImpl_request_def convertFetchError_def shouldThrow_def opt_def)

section \<open>Cached body views\<close>

lemma text_inv:
  assumes "cacheInv decode parse bytes r0 k0 s"
  shows "fst (HttpResponse_text decode s) = Val (decode bytes)
         \<and> cacheInv decode parse bytes r0 k0 (snd (HttpResponse_text decode s))"
proof -
  obtain r k where s: "s = (r, k)" by (cases s)
  show ?thesis
    using assms unfolding s
    by (auto simp: cacheInv_def HttpResponse_text_def cachesOnly_def split: js.splits)
qed

lemma json_inv:
  assumes "cacheInv decode parse bytes r0 k0 s"
  shows "fst (HttpResponse_json decode parse s) = expectedJson parse (decode bytes)
         \<and> cacheInv decode parse bytes r0 k0 (snd (HttpResponse_json decode parse s))"
proof -
  obtain r k where s: "s = (r, k)" by (cases s)
  show ?thesis
  proof (cases "jsonParsed r")
    case True
    then show ?thesis
      using assms unfolding s
      by (auto simp: cacheInv_def HttpResponse_json_def expectedJson_def)
  next
    case False
    have t: "fst (HttpResponse_text decode (r, k)) = Val (decode bytes)"
      and i: "cacheInv decode parse bytes r0 k0 (snd (HttpResponse_text decode (r, k)))"
      using text_inv [OF assms [unfolded s]] by simp_all
    obtain r1 k1 where st: "HttpResponse_text decode (r, k) = (Val (decode bytes), r1, k1)"
      using t by (cases "HttpResponse_text decode (r, k)") auto
    have i1: "cacheInv decode parse bytes r0 k0 (r1, k1)" using i st by simp
    have nj: "\<not> jsonParsed r1" and tc: "textCache r1 = Val (decode bytes)"
      using st False assms [unfolded s]
      by (auto simp: HttpResponse_text_def cacheInv_def split: js.splits)
    have b: "body r = Val bytes" using assms s by (simp add: cacheInv_def)
    show ?thesis
    proof (cases "parse (decode bytes)")
      case (Inl e)
      then show ?thesis
        using i1 nj b False st unfolding s
        by (auto simp: HttpResponse_json_def expectedJson_def cacheInv_def cachesOnly_def)
    next
      case (Inr v)
      then have pc: "parseCalls k1 = parseCalls k0" using i1 nj by (auto simp: cacheInv_def)
      show ?thesis
        using Inr i1 nj b False st pc tc unfolding s
        by (auto simp: HttpResponse_json_def expectedJson_def cacheInv_def cachesOnly_def)
    qed
  qed
qed

lemma reads_inv:
  "cacheInv decode parse bytes r0 k0 s \<Longrightarrow>
   fst (reads decode parse js s)
     = map (\<lambda>j. if j then JsonRead (expectedJson parse (decode bytes))
                else TextRead (Val (decode bytes))) js
   \<and> cacheInv decode parse bytes r0 k0 (snd (reads decode parse js s))"
proof (induction js arbitrary: s)
  case Nil
  then show ?case by simp
next
  case (Cons j js)
  show ?case
  proof (cases j)
    case True
    obtain x s' where 1: "HttpResponse_json decode parse s = (x, s')"
      by (cases "HttpResponse_json decode parse s")
    have "x = expectedJson parse (decode bytes)" and "cacheInv decode parse bytes r0 k0 s'"
      using json_inv [OF Cons.prems, of] 1 by simp_all
    then show ?thesis
      using Cons.IH [of s'] True 1 by (auto split: prod.splits)
  next
    case False
    obtain x s' where 1: "HttpResponse_text decode s = (x, s')"
      by (cases "HttpResponse_text decode s")
    have "x = Val (decode bytes)" and "cacheInv decode parse bytes r0 k0 s'"
      using text_inv [OF Cons.prems] 1 by simp_all
    then show ?thesis
      using Cons.IH [of s'] False 1 by (auto split: prod.splits)
  qed
qed

lemma cacheInv_fresh:
  "body r0 = Val bytes \<Longrightarrow> textCache r0 = Undefined \<Longrightarrow> \<not> jsonParsed r0 \<Longrightarrow>
   cacheInv decode parse bytes r0 k0 (r0, k0)"
  by (simp add: cacheInv_def cachesOnly_def)

lemma text_twice:
  assumes "cacheInv decode parse bytes r0 k0 s"
  shows "snd (HttpResponse_text decode (snd (HttpResponse_text decode s)))
           = snd (HttpResponse_text decode s)"
proof -
  obtain r k where s: "s = (r, k)" by (cases s)
  show ?thesis
    using assms unfolding s
    by (auto simp: cacheInv_def HttpResponse_text_def split: js.splits)
qed

lemma json_twice:
  assumes "cacheInv decode parse bytes r0 k0 s" and "parse (decode bytes) = Inr v"
  shows "snd (HttpResponse_json decode parse (snd (HttpResponse_json decode parse s)))
           = snd (HttpResponse_json decode parse s)"
proof -
  obtain r k where s: "s = (r, k)" by (cases s)
  show ?thesis
    using assms unfolding s
    by (auto simp: cacheInv_def HttpResponse_json_def HttpResponse_text_def split: js.splits)
qed

lemma fresh_success:
  "body (createHttpResponseSuccess rawResponse (Val bytes) d) = Val bytes
   \<and> textCache (createHttpResponseSuccess rawResponse (Val bytes) d) = Undefined
   \<and> \<not> jsonParsed (createHttpResponseSuccess rawResponse (Val bytes) d)"
  by (simp add: createHttpResponseSuccess_def)

lemma fresh_error:
  "body (createHttpResponseError rawResponse (Val bytes) d e) = Val bytes
   \<and> textCache (createHttpResponseError rawResponse (Val bytes) d e) = Undefined
   \<and> \<not> jsonParsed (createHttpResponseError rawResponse (Val bytes) d e)"
  by (simp add: createHttpResponseError_def)


text \<open>
  C8. For a success or error response created with a non-null body, any sequence of
  \<open>text()\<close> and \<open>json()\<close> calls returns the same value at every \<open>text()\<close> (the decoded body)
  and the same outcome at every \<open>json()\<close> (the parsed text). The decoder is called at
  most once, the parser at most once when it accepts the text, the response changes in
  its cache fields only, and a further \<open>text()\<close> or \<open>json()\<close> after one such call changes
  nothing at all.
\<close>

theorem body_views_cached:
  assumes "r0 = createHttpResponseSuccess rawResponse (Val bytes) d
           \<or> r0 = createHttpResponseError rawResponse (Val bytes) d e"
    and "reads decode parse js (r0, k0) = (xs, r, k)"
  shows "xs = map (\<lambda>j. if j then JsonRead (expectedJson parse (decode bytes))
                      else TextRead (Val (decode bytes))) js
         \<and> decodeCalls k \<le> decodeCalls k0 + 1
         \<and> (\<forall>v. parse (decode bytes) = Inr v \<longrightarrow> parseCalls k \<le> parseCalls k0 + 1)
         \<and> cachesOnly r0 r
         \<and> snd (HttpResponse_text decode (snd (HttpResponse_text decode (r, k))))
             = snd (HttpResponse_text decode (r, k))
         \<and> (\<forall>v. parse (decode bytes) = Inr v \<longrightarrow>
              snd (HttpResponse_json decode parse (snd (HttpResponse_json decode parse (r, k))))
                = snd (HttpResponse_json decode parse (r, k)))"
proof -
  have fresh: "body r0 = Val bytes" "textCache r0 = Undefined" "\<not> jsonParsed r0"
    using assms(1) fresh_success [of rawResponse bytes d] fresh_error [of rawResponse bytes d e]
    by auto
  note inv = reads_inv [OF cacheInv_fresh [OF fresh],
      where decode = decode and parse = parse and ?k0.0 = k0 and js = js]
  have xs: "xs = map (\<lambda>j. if j then JsonRead (expectedJson parse (decode bytes))
                      else TextRead (Val (decode bytes))) js"
    and i: "cacheInv decode parse bytes r0 k0 (r, k)"
    using inv assms(2) by simp_all
  have d: "decodeCalls k \<le> decodeCalls k0 + 1"
    using i by (auto simp: cacheInv_def)
  have p: "\<forall>v. parse (decode bytes) = Inr v \<longrightarrow> parseCalls k \<le> parseCalls k0 + 1"
    using i by (auto simp: cacheInv_def split: if_splits)
  have c: "cachesOnly r0 r" using i by (simp add: cacheInv_def)
  show ?thesis using xs d p c text_twice [OF i] json_twice [OF i] by blast
qed


theorem body_views_cached_witness:
  "reads (\<lambda>bs. ''{}'') (\<lambda>t. Inr (Suc 0)) [False, True, False, True]
      (createHttpResponseSuccess
         \<lparr>rawStatus = 200, rawStatusText = ''OK'', rawOk = True, rawUrl = ''http://h/'',
          rawHeaders = [], rawBody = Some (Inr [0x7B, 0x7D])\<rparr> (Val [0x7B, 0x7D]) 5,
       \<lparr>decodeCalls = 0, parseCalls = 0\<rparr>)
     = ([TextRead (Val ''{}''), JsonRead (Returned (Val (Suc 0))),
         TextRead (Val ''{}''), JsonRead (Returned (Val (Suc 0)))],
        (createHttpResponseSuccess
           \<lparr>rawStatus = 200, rawStatusText = ''OK'', rawOk = True, rawUrl = ''http://h/'',
            rawHeaders = [], rawBody = Some (Inr [0x7B, 0x7D])\<rparr> (Val [0x7B, 0x7D]) 5)
          \<lparr>textCache := Val ''{}'', jsonCache := Val (Suc 0), jsonParsed := True\<rparr>,
        \<lparr>decodeCalls = 1, parseCalls = 1\<rparr>)
   \<and> decodeCalls \<lparr>decodeCalls = 1, parseCalls = 1\<rparr> \<le> decodeCalls \<lparr>decodeCalls = 0, parseCalls = 0\<rparr> + 1
   \<and> cachesOnly
        (createHttpResponseSuccess
           \<lparr>rawStatus = 200, rawStatusText = ''OK'', rawOk = True, rawUrl = ''http://h/'',
            rawHeaders = [], rawBody = Some (Inr [0x7B, 0x7D])\<rparr> (Val [0x7B, 0x7D]) 5)
        ((createHttpResponseSuccess
           \<lparr>rawStatus = 200, rawStatusText = ''OK'', rawOk = True, rawUrl = ''http://h/'',
            rawHeaders = [], rawBody = Some (Inr [0x7B, 0x7D])\<rparr> (Val [0x7B, 0x7D]) 5)
          \<lparr>textCache := Val ''{}'', jsonCache := Val (Suc 0), jsonParsed := True\<rparr>)"
proof -
  let ?raw = "\<lparr>rawStatus = 200, rawStatusText = ''OK'', rawOk = True, rawUrl = ''http://h/'',
          rawHeaders = [], rawBody = Some (Inr [0x7B, 0x7D])\<rparr>"
  let ?fresh = "createHttpResponseSuccess ?raw (Val [0x7B, 0x7D]) 5 :: nat http_response"
  let ?zero = "\<lparr>decodeCalls = 0, parseCalls = 0\<rparr>"
  let ?one = "\<lparr>decodeCalls = 1, parseCalls = 1\<rparr>"
  let ?after = "?fresh\<lparr>textCache := Val ''{}'', jsonCache := Val (Suc 0), jsonParsed := True\<rparr>"
  let ?xs = "[TextRead (Val ''{}''), JsonRead (Returned (Val (Suc 0))),
         TextRead (Val ''{}''), JsonRead (Returned (Val (Suc 0)))]"
  have ev: "reads (\<lambda>bs. ''{}'') (\<lambda>t. Inr (Suc 0)) [False, True, False, True] (?fresh, ?zero)
              = (?xs, ?after, ?one)"
    by (simp add: HttpResponse_text_def HttpResponse_json_def createHttpResponseSuccess_def)
  have h: "?fresh = createHttpResponseSuccess ?raw (Val [0x7B, 0x7D]) 5
           \<or> ?fresh = createHttpResponseError ?raw (Val [0x7B, 0x7D]) 5 (NonError [])"
    by simp
  from body_views_cached [OF h ev]
  have "decodeCalls ?one \<le> decodeCalls ?zero + 1" and "cachesOnly ?fresh ?after" by blast+
  then show ?thesis using ev by blast
qed

end
